theory Spec2Isabelle
  imports Complex_Main "HOL-Library.Product_Lexorder"
begin

section \<open>Python primitives used by the statistics engine\<close>

text \<open>
  The engine of \<^verbatim>\<open>helper/ES_analysis.py\<close> works on Python floats and integers.
  Numbers are embedded as exact reals and integers; every exception the source can
  raise in the modelled code is a value of \<open>error\<close>, returned as \<open>Inl\<close>.
\<close>

datatype error = ZeroDivisionError | ValueError | TypeError

text \<open>Sequencing of two statements, the first of which may raise.\<close>

definition bind_e :: "error + 'a \<Rightarrow> ('a \<Rightarrow> error + 'b) \<Rightarrow> error + 'b" where
  "bind_e m f = (case m of Inl e \<Rightarrow> Inl e | Inr v \<Rightarrow> f v)"

text \<open>Python's \<^verbatim>\<open>a / b\<close>: raises \<^verbatim>\<open>ZeroDivisionError\<close> when \<open>b\<close> is zero.\<close>

definition py_div :: "real \<Rightarrow> real \<Rightarrow> error + real" where
  "py_div a b = (if b = 0 then Inl ZeroDivisionError else Inr (a / b))"

text \<open>Python's \<^verbatim>\<open>int(x)\<close> on a float: truncation toward zero.\<close>

definition py_int :: "real \<Rightarrow> int" where
  "py_int v = (if 0 \<le> v then \<lfloor>v\<rfloor> else \<lceil>v\<rceil>)"

text \<open>
  Python's \<^verbatim>\<open>range(start, stop, step)\<close>: the values \<open>start, start + step, ...\<close>
  strictly before \<open>stop\<close> in the direction of \<open>step\<close>; a zero step raises
  \<^verbatim>\<open>ValueError\<close>.
\<close>

function range_up :: "int \<Rightarrow> int \<Rightarrow> int \<Rightarrow> int list" where
  "range_up i stop step =
     (if 0 < step \<and> i < stop then i # range_up (i + step) stop step else [])"
  by pat_completeness auto
termination
  by (relation "measure (\<lambda>(i, stop, step). nat (stop - i))") auto

function range_down :: "int \<Rightarrow> int \<Rightarrow> int \<Rightarrow> int list" where
  "range_down i stop step =
     (if step < 0 \<and> stop < i then i # range_down (i + step) stop step else [])"
  by pat_completeness auto
termination
  by (relation "measure (\<lambda>(i, stop, step). nat (i - stop))") auto

text \<open>The two recursive equations are unfolded on demand, one step at a time.\<close>

declare range_up.simps [simp del] range_down.simps [simp del]

definition py_range :: "int \<Rightarrow> int \<Rightarrow> int \<Rightarrow> error + int list" where
  "py_range start stop step =
     (if step = 0 then Inl ValueError
      else if 0 < step then Inr (range_up start stop step)
      else Inr (range_down start stop step))"

text \<open>Python's \<^verbatim>\<open>max(seq)\<close>: raises \<^verbatim>\<open>ValueError\<close> on an empty sequence.\<close>

definition py_max :: "real list \<Rightarrow> error + real" where
  "py_max vs = (case vs of [] \<Rightarrow> Inl ValueError | v # ws \<Rightarrow> Inr (fold max ws v))"

text \<open>
  \<^verbatim>\<open>numpy.mean\<close>: the mean of an empty sequence is NaN (a warning, no exception);
  NaN is the value \<open>None\<close>.
\<close>

definition np_mean :: "real list \<Rightarrow> real option" where
  "np_mean vs = (if vs = [] then None else Some (sum_list vs / real (length vs)))"

section \<open>Configuration of \<^verbatim>\<open>EsPriceAnalysis\<close>\<close>

definition FACTOR_ROUND :: real where
  "FACTOR_ROUND = 10"

definition BIN_RANGE_CPF :: int where
  "BIN_RANGE_CPF = 5"

definition BIN_TREND_CPF :: int where
  "BIN_TREND_CPF = 10"

text \<open>
  A \<^verbatim>\<open>datetime.time\<close> is the tuple (hour, minute, second, microsecond); Python
  compares two of them in that lexicographic order.
\<close>

type_synonym time = "nat \<times> nat \<times> nat \<times> nat"

definition time_hm :: "nat \<Rightarrow> nat \<Rightarrow> time" where
  "time_hm h m = (h, m, 0, 0)"

definition x_cpf_time :: "time list" where
  "x_cpf_time =
     [time_hm 9 30, time_hm 10 0, time_hm 10 30, time_hm 11 0, time_hm 11 30, time_hm 12 0,
      time_hm 12 30, time_hm 13 0, time_hm 13 30, time_hm 14 0, time_hm 14 30, time_hm 15 0]"

section \<open>The rounding helper and the CPF calculators\<close>

text \<open>\<^verbatim>\<open>__round\<close>: \<^verbatim>\<open>int(n * self.__FACTOR_ROUND) / self.__FACTOR_ROUND\<close>.\<close>

definition round_py :: "real \<Rightarrow> real" where
  "round_py n = real_of_int (py_int (n * FACTOR_ROUND)) / FACTOR_ROUND"

text \<open>The dictionary \<^verbatim>\<open>{"cpf": cpf, "x": x_cpf}\<close> both calculators return.\<close>

record 'a cpf_result =
  cpf :: "real list"
  x_cpf :: "'a list"

text \<open>
  The loop \<^verbatim>\<open>for x in x_cpf: cpf.append(100. * sum(i <= x for i in data) / n)\<close>,
  which both calculators run; \<open>le\<close> is the comparison \<^verbatim>\<open>i <= x\<close> at the types of
  the caller. The first division that raises ends the loop.
\<close>

fun cpf_loop :: "('a \<Rightarrow> 'b \<Rightarrow> bool) \<Rightarrow> 'a list \<Rightarrow> real \<Rightarrow> 'b list \<Rightarrow> error + real list" where
  "cpf_loop le data n [] = Inr []"
| "cpf_loop le data n (t # ts) =
     bind_e (py_div (100 * real (length (filter (\<lambda>i. le i t) data))) n) (\<lambda>v.
     bind_e (cpf_loop le data n ts) (\<lambda>vs. Inr (v # vs)))"

text \<open>\<^verbatim>\<open>__calc_cpf(data, bin_max, bin_span)\<close>.\<close>

definition calc_cpf :: "real list \<Rightarrow> int \<Rightarrow> int \<Rightarrow> error + int cpf_result" where
  "calc_cpf data bin_max bin_span =
     bind_e (py_range bin_span bin_max bin_span) (\<lambda>ps.
       let xs = ps @ [bin_max];
           n = real (length data)
       in bind_e (cpf_loop (\<lambda>i t. i \<le> real_of_int t) data n xs) (\<lambda>c.
            Inr \<lparr>cpf = c, x_cpf = xs\<rparr>))"

text \<open>\<^verbatim>\<open>__calc_cpf_time(data)\<close>, against the twelve fixed thresholds.\<close>

definition calc_cpf_time :: "time list \<Rightarrow> error + time cpf_result" where
  "calc_cpf_time data =
     (let n = real (length data)
      in bind_e (cpf_loop (\<lambda>i t. i \<le> t) data n x_cpf_time) (\<lambda>c.
           Inr \<lparr>cpf = c, x_cpf = x_cpf_time\<rparr>))"

section \<open>The session table\<close>

text \<open>
  One row of the sheet \<^verbatim>\<open>ES movement\<close>, with the columns the analyzers read.
  An empty cell (pandas' null) is \<open>None\<close>. The column \<^verbatim>\<open>Max Range 8:30 - 13\<close> is
  taken as filled in every row. The table has pandas' default index, so the label of
  a row is its position.
\<close>

record session =
  col_trend :: "int option"
  col_new_trend :: "int option"
  col_hour_trend_change :: "time option"
  col_max_range :: real
  col_es_pp :: "int option"
  col_first_rebound :: "string option"
  col_second_rebound :: "string option"
  col_pt_deep_rebound :: "real option"
  col_no_perfect_rebound :: "string option"

type_synonym table = "session list"

text \<open>\<^verbatim>\<open>df[mask].index.tolist()\<close>: the labels of the rows that satisfy the mask.\<close>

definition rows_where :: "(session \<Rightarrow> bool) \<Rightarrow> table \<Rightarrow> nat list" where
  "rows_where p df = filter (\<lambda>i. p (df ! i)) [0..<length df]"

text \<open>\<^verbatim>\<open>100. * a / b\<close> on two counts.\<close>

definition pct :: "nat \<Rightarrow> nat \<Rightarrow> error + real" where
  "pct a b = py_div (100 * real a) (real b)"

text \<open>
  \<^verbatim>\<open>list(set(xs))\<close>: the distinct elements; Python leaves their order open, and the
  analyzers use only the length and membership of the result.
\<close>

definition list_set :: "nat list \<Rightarrow> nat list" where
  "list_set xs = remdups xs"

section \<open>\<^verbatim>\<open>__analyze_pivot_points\<close>\<close>

subsection \<open>Row indexes of the days with an interaction\<close>

definition rows_first_rebound :: "table \<Rightarrow> nat list" where
  "rows_first_rebound df = rows_where (\<lambda>r. col_first_rebound r \<noteq> None) df"

definition rows_second_rebound :: "table \<Rightarrow> nat list" where
  "rows_second_rebound df = rows_where (\<lambda>r. col_second_rebound r \<noteq> None) df"

definition rows_perfect_rebound :: "table \<Rightarrow> nat list" where
  "rows_perfect_rebound df = rows_first_rebound df @ rows_second_rebound df"

definition rows_deep_rebound :: "table \<Rightarrow> nat list" where
  "rows_deep_rebound df = rows_where (\<lambda>r. col_pt_deep_rebound r \<noteq> None) df"

definition rows_no_perfect_rebound :: "table \<Rightarrow> nat list" where
  "rows_no_perfect_rebound df = rows_where (\<lambda>r. col_no_perfect_rebound r \<noteq> None) df"

definition rows_no_rebound :: "table \<Rightarrow> nat list" where
  "rows_no_rebound df =
     filter (\<lambda>i. i \<notin> set (rows_deep_rebound df)) (rows_no_perfect_rebound df)"

subsection \<open>Number of Demark points\<close>

record general_counts =
  count_perfect_rebound :: nat
  count_deep_rebound :: nat
  count_rebound :: nat
  count_no_perfect_rebound :: nat
  count_no_rebound :: nat
  count_points :: nat
  total_days :: nat

definition general_counts :: "table \<Rightarrow> general_counts" where
  "general_counts df =
     (let c_perfect = length (rows_perfect_rebound df);
          c_deep = length (rows_deep_rebound df);
          c_rebound = c_perfect + c_deep;
          c_no = length (rows_no_rebound df)
      in \<lparr>count_perfect_rebound = c_perfect,
          count_deep_rebound = c_deep,
          count_rebound = c_rebound,
          count_no_perfect_rebound = length (rows_no_perfect_rebound df),
          count_no_rebound = c_no,
          count_points = c_rebound + c_no,
          total_days = length df\<rparr>)"

subsection \<open>The touched levels and the deep-rebound distances\<close>

definition point_perfect_rebound :: "table \<Rightarrow> string option list" where
  "point_perfect_rebound df =
     map (\<lambda>i. col_first_rebound (df ! i)) (rows_first_rebound df) @
     map (\<lambda>i. col_second_rebound (df ! i)) (rows_second_rebound df)"

definition point_deep_rebound :: "table \<Rightarrow> string option list" where
  "point_deep_rebound df = map (\<lambda>i. col_no_perfect_rebound (df ! i)) (rows_deep_rebound df)"

text \<open>The distances are read at the rows where the cell is not null.\<close>

definition pt_deep_rebound :: "table \<Rightarrow> real list" where
  "pt_deep_rebound df = List.map_filter (\<lambda>i. col_pt_deep_rebound (df ! i)) (rows_deep_rebound df)"

definition pt_deep_rebound_at :: "string \<Rightarrow> table \<Rightarrow> real list" where
  "pt_deep_rebound_at point df =
     List.map_filter (\<lambda>i. col_pt_deep_rebound (df ! i))
       (filter (\<lambda>i. col_no_perfect_rebound (df ! i) = Some point) (rows_deep_rebound df))"

definition point_no_rebound :: "table \<Rightarrow> string option list" where
  "point_no_rebound df = map (\<lambda>i. col_no_perfect_rebound (df ! i)) (rows_no_rebound df)"

subsection \<open>Day-level row sets\<close>

definition days_with_perfect_rebound :: "table \<Rightarrow> nat list" where
  "days_with_perfect_rebound df = rows_first_rebound df"

definition days_with_deep_rebound :: "table \<Rightarrow> nat list" where
  "days_with_deep_rebound df = rows_deep_rebound df"

definition days_with_no_rebound :: "table \<Rightarrow> nat list" where
  "days_with_no_rebound df = rows_no_rebound df"

definition days_with_no_perfect_rebound :: "table \<Rightarrow> nat list" where
  "days_with_no_perfect_rebound df = rows_no_perfect_rebound df"

definition days_with_rebound :: "table \<Rightarrow> nat list" where
  "days_with_rebound df = list_set (days_with_perfect_rebound df @ days_with_deep_rebound df)"

definition days_with_demark :: "table \<Rightarrow> nat list" where
  "days_with_demark df = list_set (days_with_rebound df @ days_with_no_rebound df)"

definition days_with_no_demark :: "table \<Rightarrow> nat list" where
  "days_with_no_demark df =
     filter (\<lambda>i. i \<notin> set (days_with_demark df)) [0..<total_days (general_counts df)]"

definition demark_days_with_rebound_only :: "table \<Rightarrow> nat list" where
  "demark_days_with_rebound_only df =
     filter (\<lambda>i. i \<notin> set (days_with_no_rebound df)) (days_with_rebound df)"

definition demark_days_with_perfect_rebound_only :: "table \<Rightarrow> nat list" where
  "demark_days_with_perfect_rebound_only df =
     filter (\<lambda>i. i \<notin> set (days_with_no_perfect_rebound df)) (days_with_perfect_rebound df)"

definition demark_days_with_deep_rebound_only :: "table \<Rightarrow> nat list" where
  "demark_days_with_deep_rebound_only df =
     filter (\<lambda>i. i \<notin> set (days_with_perfect_rebound df)) (days_with_deep_rebound df)"

definition demark_days_with_no_rebound_only :: "table \<Rightarrow> nat list" where
  "demark_days_with_no_rebound_only df =
     filter (\<lambda>i. i \<notin> set (days_with_rebound df)) (days_with_no_rebound df)"

subsection \<open>The group \<^verbatim>\<open>"Days with demark"\<close>\<close>

record demark_days_stats =
  dd_count :: nat
  dd_with_rebound :: real
  dd_only_rebound :: real
  dd_only_perfect_rebound :: real
  dd_only_deep_rebound :: real
  dd_only_no_rebound :: real
  dd_with_no_rebound :: real
  dd_with_perfect_rebound :: real
  dd_with_deep_rebound :: real

definition demark_days_stats :: "table \<Rightarrow> error + demark_days_stats" where
  "demark_days_stats df =
     (let c = length (days_with_demark df) in
      bind_e (pct (length (days_with_rebound df)) c) (\<lambda>v1.
      bind_e (pct (length (demark_days_with_rebound_only df)) c) (\<lambda>v2.
      bind_e (pct (length (demark_days_with_perfect_rebound_only df)) c) (\<lambda>v3.
      bind_e (pct (length (demark_days_with_deep_rebound_only df)) c) (\<lambda>v4.
      bind_e (pct (length (demark_days_with_no_rebound_only df)) c) (\<lambda>v5.
      bind_e (pct (length (days_with_no_rebound df)) c) (\<lambda>v6.
      bind_e (pct (length (days_with_perfect_rebound df)) c) (\<lambda>v7.
      bind_e (pct (length (days_with_deep_rebound df)) c) (\<lambda>v8.
      Inr \<lparr>dd_count = c, dd_with_rebound = v1, dd_only_rebound = v2,
           dd_only_perfect_rebound = v3, dd_only_deep_rebound = v4,
           dd_only_no_rebound = v5, dd_with_no_rebound = v6,
           dd_with_perfect_rebound = v7, dd_with_deep_rebound = v8\<rparr>)))))))))"

subsection \<open>The percentages of the group \<^verbatim>\<open>"General"\<close>\<close>

record general_days_pct =
  pct_days_with_rebound :: real
  pct_days_no_demark :: real
  pct_days_with_demark :: real

definition general_days_pct :: "table \<Rightarrow> error + general_days_pct" where
  "general_days_pct df =
     (let n = total_days (general_counts df) in
      bind_e (pct (length (days_with_rebound df)) n) (\<lambda>v1.
      bind_e (pct (length (days_with_no_demark df)) n) (\<lambda>v2.
      bind_e (pct (length (days_with_demark df)) n) (\<lambda>v3.
      Inr \<lparr>pct_days_with_rebound = v1, pct_days_no_demark = v2,
           pct_days_with_demark = v3\<rparr>))))"

record general_points_pct =
  pct_rebound :: real
  pct_no_rebound :: real
  pct_perfect_rebound :: real
  pct_deep_rebound :: real
  pct_perfect_rebound_if_rebound :: real

definition general_points_pct :: "table \<Rightarrow> error + general_points_pct" where
  "general_points_pct df =
     (let g = general_counts df in
      bind_e (pct (count_rebound g) (count_points g)) (\<lambda>v1.
      bind_e (pct (count_no_rebound g) (count_points g)) (\<lambda>v2.
      bind_e (pct (count_perfect_rebound g) (count_points g)) (\<lambda>v3.
      bind_e (pct (count_deep_rebound g) (count_points g)) (\<lambda>v4.
      bind_e (pct (count_perfect_rebound g) (count_rebound g)) (\<lambda>v5.
      Inr \<lparr>pct_rebound = v1, pct_no_rebound = v2, pct_perfect_rebound = v3,
           pct_deep_rebound = v4, pct_perfect_rebound_if_rebound = v5\<rparr>))))))"

subsection \<open>The groups \<^verbatim>\<open>"Pivot"\<close>, \<^verbatim>\<open>"Support"\<close> and \<^verbatim>\<open>"Resistance"\<close>\<close>

text \<open>\<^verbatim>\<open>__count_point\<close>: occurrences of the point in the three lists.\<close>

definition count_point ::
  "string option \<Rightarrow> string option list \<Rightarrow> string option list \<Rightarrow> string option list
     \<Rightarrow> nat \<times> nat \<times> nat" where
  "count_point point list_perfect_rebound list_deep_rebound list_no_rebound =
     (count_list list_perfect_rebound point, count_list list_deep_rebound point,
      count_list list_no_rebound point)"

text \<open>
  The source repeats one block for \<^verbatim>\<open>"PP"\<close>, \<^verbatim>\<open>"S"\<close> and \<^verbatim>\<open>"R"\<close>; the block
  is written once, with the point as its parameter. The first four fields are the
  keys \<^verbatim>\<open>"pct <level> perfect rebound"\<close>, \<^verbatim>\<open>"pct <level> deep rebound"\<close>,
  \<^verbatim>\<open>"pct <level> rebound"\<close> and \<^verbatim>\<open>"pct <level> no rebound"\<close>.
\<close>

record level_stats =
  pct_level_perfect_rebound :: real
  pct_level_deep_rebound :: real
  pct_level_rebound :: real
  pct_level_no_rebound :: real
  pct_point :: real
  lv_pct_perfect_rebound :: real
  lv_pct_deep_rebound :: real
  lv_pct_rebound :: real
  lv_pct_no_rebound :: real
  lv_pt_deep_rebound :: "real list"

definition level_stats :: "string \<Rightarrow> table \<Rightarrow> error + level_stats" where
  "level_stats point df =
     (let g = general_counts df;
          (c_perfect, c_deep, c_no) =
             count_point (Some point) (point_perfect_rebound df) (point_deep_rebound df)
               (point_no_rebound df);
          c_total = c_perfect + c_deep + c_no
      in
      bind_e (pct c_perfect (count_perfect_rebound g)) (\<lambda>v1.
      bind_e (pct c_deep (count_deep_rebound g)) (\<lambda>v2.
      bind_e (pct (c_perfect + c_deep) (count_rebound g)) (\<lambda>v3.
      bind_e (pct c_no (count_no_rebound g)) (\<lambda>v4.
      bind_e (pct c_total (count_points g)) (\<lambda>v5.
      bind_e (pct c_perfect c_total) (\<lambda>v6.
      bind_e (pct c_deep c_total) (\<lambda>v7.
      bind_e (pct (c_perfect + c_deep) c_total) (\<lambda>v8.
      bind_e (pct c_no c_total) (\<lambda>v9.
      Inr \<lparr>pct_level_perfect_rebound = v1, pct_level_deep_rebound = v2,
           pct_level_rebound = v3, pct_level_no_rebound = v4, pct_point = v5,
           lv_pct_perfect_rebound = v6, lv_pct_deep_rebound = v7, lv_pct_rebound = v8,
           lv_pct_no_rebound = v9,
           lv_pt_deep_rebound = pt_deep_rebound_at point df\<rparr>))))))))))"

subsection \<open>The deep-rebound distance distribution\<close>

text \<open>
  The loop \<^verbatim>\<open>for i, x in enumerate(cdf["x"]): stats[str(int(x))] = cdf["cpf"][i]\<close>
  stores the value of each threshold under the threshold's label: the pairs of the
  two lists.
\<close>

definition cpf_table :: "'a cpf_result \<Rightarrow> ('a \<times> real) list" where
  "cpf_table c = zip (x_cpf c) (cpf c)"

record deep_rebound_stats =
  dr_pct_of_deep_rebounds :: real
  dr_mean :: "real option"
  dr_cdf :: "(int \<times> real) list"

text \<open>The group \<^verbatim>\<open>"General"\<close>; the bin width is the default \<^verbatim>\<open>bin_span = 2\<close>.\<close>

definition deep_rebound_general :: "table \<Rightarrow> error + deep_rebound_stats" where
  "deep_rebound_general df =
     bind_e (py_max (pt_deep_rebound df)) (\<lambda>m.
     bind_e (calc_cpf (pt_deep_rebound df) (py_int m) 2) (\<lambda>c.
     Inr \<lparr>dr_pct_of_deep_rebounds = 100, dr_mean = np_mean (pt_deep_rebound df),
          dr_cdf = cpf_table c\<rparr>))"

text \<open>The groups \<^verbatim>\<open>"Pivot"\<close>, \<^verbatim>\<open>"Support"\<close>, \<^verbatim>\<open>"Resistance"\<close>: one block, three times.\<close>

definition deep_rebound_level :: "string \<Rightarrow> table \<Rightarrow> error + deep_rebound_stats" where
  "deep_rebound_level point df =
     bind_e (py_max (pt_deep_rebound df)) (\<lambda>m.
     bind_e (calc_cpf (pt_deep_rebound_at point df) (py_int m) 2) (\<lambda>c.
     bind_e (pct (length (pt_deep_rebound_at point df)) (length (pt_deep_rebound df))) (\<lambda>p.
     Inr \<lparr>dr_pct_of_deep_rebounds = p, dr_mean = np_mean (pt_deep_rebound_at point df),
          dr_cdf = cpf_table c\<rparr>)))"

subsection \<open>Analysis no rebound\<close>

record no_rebound_stats =
  nr_pct_uptrend :: real
  nr_pct_downtrend :: real
  nr_pct_range :: real
  nr_pct_es_lower_pp :: real
  nr_pct_es_higher_pp :: real
  nr_pct_resistance :: real
  nr_pct_pivot :: real
  nr_pct_support :: real

definition no_rebound_stats :: "table \<Rightarrow> error + no_rebound_stats" where
  "no_rebound_stats df =
     (let trend_no_rebound = map (\<lambda>i. col_trend (df ! i)) (rows_no_rebound df);
          es_pp_no_rebound = map (\<lambda>i. col_es_pp (df ! i)) (rows_no_rebound df);
          count_days_no_rebound = length (rows_no_rebound df)
      in
      bind_e (pct (count_list trend_no_rebound (Some 1)) count_days_no_rebound) (\<lambda>v1.
      bind_e (pct (count_list trend_no_rebound (Some (- 1))) count_days_no_rebound) (\<lambda>v2.
      bind_e (pct (count_list trend_no_rebound (Some 0)) count_days_no_rebound) (\<lambda>v3.
      bind_e (pct (count_list es_pp_no_rebound (Some 0) + count_list es_pp_no_rebound (Some 2))
                count_days_no_rebound) (\<lambda>v4.
      bind_e (pct (count_list es_pp_no_rebound (Some 1) + count_list es_pp_no_rebound (Some (- 1)))
                count_days_no_rebound) (\<lambda>v5.
      bind_e (pct (count_list (point_no_rebound df) (Some ''R'')) count_days_no_rebound) (\<lambda>v6.
      bind_e (pct (count_list (point_no_rebound df) (Some ''PP'')) count_days_no_rebound) (\<lambda>v7.
      bind_e (pct (count_list (point_no_rebound df) (Some ''S'')) count_days_no_rebound) (\<lambda>v8.
      Inr \<lparr>nr_pct_uptrend = v1, nr_pct_downtrend = v2, nr_pct_range = v3,
           nr_pct_es_lower_pp = v4, nr_pct_es_higher_pp = v5, nr_pct_resistance = v6,
           nr_pct_pivot = v7, nr_pct_support = v8\<rparr>)))))))))"

subsection \<open>The whole analyzer\<close>

record pivot_report =
  pr_general :: general_counts
  pr_days_with_demark :: demark_days_stats
  pr_general_days :: general_days_pct
  pr_general_points :: general_points_pct
  pr_pivot :: level_stats
  pr_support :: level_stats
  pr_resistance :: level_stats
  pr_deep_general :: deep_rebound_stats
  pr_deep_pivot :: deep_rebound_stats
  pr_deep_support :: deep_rebound_stats
  pr_deep_resistance :: deep_rebound_stats
  pr_no_rebound :: no_rebound_stats

text \<open>
  The statements of \<^verbatim>\<open>__analyze_pivot_points\<close> in the order of the source; an
  exception in one of them leaves the method, and the run, at once.
\<close>

definition analyze_pivot_points :: "table \<Rightarrow> error + pivot_report" where
  "analyze_pivot_points df =
     bind_e (demark_days_stats df) (\<lambda>dd.
     bind_e (general_days_pct df) (\<lambda>gd.
     bind_e (general_points_pct df) (\<lambda>gp.
     bind_e (level_stats ''PP'' df) (\<lambda>lp.
     bind_e (level_stats ''S'' df) (\<lambda>ls.
     bind_e (level_stats ''R'' df) (\<lambda>lr.
     bind_e (deep_rebound_general df) (\<lambda>dg.
     bind_e (deep_rebound_level ''PP'' df) (\<lambda>dp.
     bind_e (deep_rebound_level ''S'' df) (\<lambda>ds.
     bind_e (deep_rebound_level ''R'' df) (\<lambda>dr.
     bind_e (no_rebound_stats df) (\<lambda>nr.
     Inr \<lparr>pr_general = general_counts df, pr_days_with_demark = dd, pr_general_days = gd,
          pr_general_points = gp, pr_pivot = lp, pr_support = ls, pr_resistance = lr,
          pr_deep_general = dg, pr_deep_pivot = dp, pr_deep_support = ds,
          pr_deep_resistance = dr, pr_no_rebound = nr\<rparr>)))))))))))"

section \<open>\<^verbatim>\<open>__analyze_reversal\<close>\<close>

text \<open>
  The values of a column of times handed to \<^verbatim>\<open>__calc_cpf_time\<close>: comparing a
  null cell with a \<^verbatim>\<open>datetime.time\<close> raises \<^verbatim>\<open>TypeError\<close>.
\<close>

fun time_cells :: "time option list \<Rightarrow> error + time list" where
  "time_cells [] = Inr []"
| "time_cells (None # vs) = Inl TypeError"
| "time_cells (Some t # vs) = bind_e (time_cells vs) (\<lambda>ts. Inr (t # ts))"

definition calc_cpf_time_cells :: "time option list \<Rightarrow> error + time cpf_result" where
  "calc_cpf_time_cells vs = bind_e (time_cells vs) calc_cpf_time"

text \<open>The two buckets of the column \<^verbatim>\<open>ES & PP\<close>.\<close>

definition es_higher_pp :: "session \<Rightarrow> bool" where
  "es_higher_pp r = (col_es_pp r = Some 1 \<or> col_es_pp r = Some (- 1))"

definition es_lower_pp :: "session \<Rightarrow> bool" where
  "es_lower_pp r = (col_es_pp r = Some 0 \<or> col_es_pp r = Some 2)"

subsection \<open>\<^verbatim>\<open>__analyze_general_reversal\<close>\<close>

definition es_price_with_reversal_df :: "table \<Rightarrow> table" where
  "es_price_with_reversal_df df = filter (\<lambda>r. col_hour_trend_change r \<noteq> None) df"

record general_reversal =
  count_days_with_reversal :: nat
  pct_with_reversal :: real

definition analyze_general_reversal :: "table \<Rightarrow> error + general_reversal" where
  "analyze_general_reversal df =
     (let c = length (es_price_with_reversal_df df) in
      bind_e (pct c (length df)) (\<lambda>v.
      Inr \<lparr>count_days_with_reversal = c, pct_with_reversal = v\<rparr>))"

subsection \<open>\<^verbatim>\<open>__analyze_reversal_each_trend\<close>\<close>

definition es_uptrend_df :: "table \<Rightarrow> table" where
  "es_uptrend_df df = filter (\<lambda>r. col_trend r = Some 1) df"

definition es_downtrend_df :: "table \<Rightarrow> table" where
  "es_downtrend_df df = filter (\<lambda>r. col_trend r = Some (- 1)) df"

definition es_range_df :: "table \<Rightarrow> table" where
  "es_range_df df = filter (\<lambda>r. col_trend r = Some 0) df"

definition then_reversal :: "table \<Rightarrow> table" where
  "then_reversal cls = filter (\<lambda>r. col_hour_trend_change r \<noteq> None) cls"

definition es_uptrend_then_reversal_df :: "table \<Rightarrow> table" where
  "es_uptrend_then_reversal_df df = then_reversal (es_uptrend_df df)"

definition es_downtrend_then_reversal_df :: "table \<Rightarrow> table" where
  "es_downtrend_then_reversal_df df = then_reversal (es_downtrend_df df)"

definition es_range_then_reversal_df :: "table \<Rightarrow> table" where
  "es_range_then_reversal_df df = then_reversal (es_range_df df)"

text \<open>The CPF of the reversal hour over the rows with a new trend.\<close>

definition hour_reversal_cpf :: "table \<Rightarrow> error + (time \<times> real) list" where
  "hour_reversal_cpf cls =
     bind_e (calc_cpf_time_cells
               (map col_hour_trend_change (filter (\<lambda>r. col_new_trend r \<noteq> None) cls)))
       (\<lambda>c. Inr (cpf_table c))"

record class_pct =
  pct_uptrend_then_reversal :: real
  pct_downtrend_then_reversal :: real
  pct_range_then_reversal :: real

definition class_pct :: "table \<Rightarrow> error + class_pct" where
  "class_pct df =
     bind_e (pct (length (es_uptrend_then_reversal_df df)) (length (es_uptrend_df df))) (\<lambda>v1.
     bind_e (pct (length (es_downtrend_then_reversal_df df)) (length (es_downtrend_df df))) (\<lambda>v2.
     bind_e (pct (length (es_range_then_reversal_df df)) (length (es_range_df df))) (\<lambda>v3.
     Inr \<lparr>pct_uptrend_then_reversal = v1, pct_downtrend_then_reversal = v2,
          pct_range_then_reversal = v3\<rparr>)))"

text \<open>The group \<^verbatim>\<open>"reversal day"\<close>.\<close>

record reversal_day =
  rd_count :: nat
  rd_pct_down_then_up :: real
  rd_pct_up_then_down :: real
  rd_pct_range_then_up :: real
  rd_pct_range_then_down :: real

definition reversal_day :: "table \<Rightarrow> nat \<Rightarrow> error + reversal_day" where
  "reversal_day df n_reversal =
     (let es_uptrend_then_downtrend_df =
            filter (\<lambda>r. col_new_trend r = Some (- 1)) (es_uptrend_then_reversal_df df);
          es_downtrend_then_uptrend_df =
            filter (\<lambda>r. col_new_trend r = Some 1) (es_downtrend_then_reversal_df df);
          es_range_then_uptrend_df =
            filter (\<lambda>r. col_new_trend r = Some 1) (es_range_then_reversal_df df);
          es_range_then_downtrend_df =
            filter (\<lambda>r. col_new_trend r = Some (- 1)) (es_range_then_reversal_df df)
      in
      bind_e (pct (length es_downtrend_then_uptrend_df) n_reversal) (\<lambda>v1.
      bind_e (pct (length es_uptrend_then_downtrend_df) n_reversal) (\<lambda>v2.
      bind_e (pct (length es_range_then_uptrend_df) n_reversal) (\<lambda>v3.
      bind_e (pct (length es_range_then_downtrend_df) n_reversal) (\<lambda>v4.
      Inr \<lparr>rd_count = n_reversal, rd_pct_down_then_up = v1, rd_pct_up_then_down = v2,
           rd_pct_range_then_up = v3, rd_pct_range_then_down = v4\<rparr>)))))"

text \<open>
  The groups \<^verbatim>\<open>"uptrend day"\<close>, \<^verbatim>\<open>"downtrend day"\<close> and \<^verbatim>\<open>"range day"\<close>. The
  source repeats one block for the three data frames; the three copies differ in the
  data frame \<open>cls\<close> of the class and in one more place, the divisor of
  \<^verbatim>\<open>"% reversal when ES<PP at 8:30am**"\<close>, which is the parameter \<open>den_lower\<close>.
\<close>

record trend_day =
  td_count :: nat
  td_pct_with_reversal :: real
  td_pct_reversal_es_lower_pp :: real
  td_pct_reversal_es_higher_pp :: real
  td_avg_range_no_reversal :: "real option"
  td_avg_range_reversal :: "real option"
  td_hour_cpf :: "(time \<times> real) list"

definition trend_day :: "table \<Rightarrow> nat \<Rightarrow> error + trend_day" where
  "trend_day cls den_lower =
     (let count_days = length cls;
          range_no_reversal_days = map col_max_range (filter (\<lambda>r. col_new_trend r = None) cls);
          range_with_reversal_days = map col_max_range (filter (\<lambda>r. col_new_trend r \<noteq> None) cls);
          then_reversal_es_higher_pp = filter es_higher_pp (then_reversal cls);
          then_reversal_es_lower_pp = filter es_lower_pp (then_reversal cls)
      in
      bind_e (pct (length (then_reversal cls)) count_days) (\<lambda>v1.
      bind_e (pct (length then_reversal_es_lower_pp) den_lower) (\<lambda>v2.
      bind_e (pct (length then_reversal_es_higher_pp) (length (then_reversal cls))) (\<lambda>v3.
      bind_e (hour_reversal_cpf cls) (\<lambda>h.
      Inr \<lparr>td_count = count_days, td_pct_with_reversal = v1,
           td_pct_reversal_es_lower_pp = v2, td_pct_reversal_es_higher_pp = v3,
           td_avg_range_no_reversal = np_mean range_no_reversal_days,
           td_avg_range_reversal = np_mean range_with_reversal_days,
           td_hour_cpf = h\<rparr>)))))"

text \<open>The dictionary \<^verbatim>\<open>__range_then_reversal\<close>, filled at the head of the range-day block.\<close>

record range_then_reversal =
  rr_count :: nat
  rr_pct_uptrend_reversal :: real
  rr_pct_downtrend_reversal :: real
  rr_avg_range_no_reversal :: "real option"
  rr_avg_range_then_uptrend :: "real option"
  rr_avg_range_then_downtrend :: "real option"

definition range_then_reversal :: "table \<Rightarrow> error + range_then_reversal" where
  "range_then_reversal df =
     (let rng = es_range_df df;
          range_range_no_reversal_days =
            map col_max_range (filter (\<lambda>r. col_new_trend r = None) rng);
          count_range_with_reversal = length (filter (\<lambda>r. col_new_trend r \<noteq> None) rng);
          range_then_uptrend_days_df = filter (\<lambda>r. col_new_trend r = Some 1) rng;
          range_then_downtrend_days_df = filter (\<lambda>r. col_new_trend r = Some (- 1)) rng
      in
      bind_e (pct (length range_then_uptrend_days_df) count_range_with_reversal) (\<lambda>v1.
      bind_e (pct (length range_then_downtrend_days_df) count_range_with_reversal) (\<lambda>v2.
      Inr \<lparr>rr_count = count_range_with_reversal, rr_pct_uptrend_reversal = v1,
           rr_pct_downtrend_reversal = v2,
           rr_avg_range_no_reversal = np_mean range_range_no_reversal_days,
           rr_avg_range_then_uptrend = np_mean (map col_max_range range_then_uptrend_days_df),
           rr_avg_range_then_downtrend =
             np_mean (map col_max_range range_then_downtrend_days_df)\<rparr>)))"

record reversal_each_trend =
  re_hour_general :: "(time \<times> real) list"
  re_class_pct :: class_pct
  re_reversal_day :: reversal_day
  re_uptrend_day :: trend_day
  re_downtrend_day :: trend_day
  re_range_then_reversal :: range_then_reversal
  re_range_day :: trend_day

text \<open>
  \<open>n_reversal\<close> is \<^verbatim>\<open>self.__stats_reversal["General"]["count days with reversal"]\<close>,
  set by \<^verbatim>\<open>__analyze_general_reversal\<close>. The divisor handed to the range-day block is
  the one the source writes there: \<^verbatim>\<open>len(self.__es_downtrend_then_reversal_df.index)\<close>.
\<close>

definition analyze_reversal_each_trend :: "table \<Rightarrow> nat \<Rightarrow> error + reversal_each_trend" where
  "analyze_reversal_each_trend df n_reversal =
     bind_e (hour_reversal_cpf df) (\<lambda>hg.
     bind_e (class_pct df) (\<lambda>cp.
     bind_e (reversal_day df n_reversal) (\<lambda>rd.
     bind_e (trend_day (es_uptrend_df df) (length (es_uptrend_then_reversal_df df))) (\<lambda>up.
     bind_e (trend_day (es_downtrend_df df) (length (es_downtrend_then_reversal_df df))) (\<lambda>dn.
     bind_e (range_then_reversal df) (\<lambda>rr.
     bind_e (trend_day (es_range_df df) (length (es_downtrend_then_reversal_df df))) (\<lambda>rg.
     Inr \<lparr>re_hour_general = hg, re_class_pct = cp, re_reversal_day = rd,
          re_uptrend_day = up, re_downtrend_day = dn, re_range_then_reversal = rr,
          re_range_day = rg\<rparr>)))))))"

subsection \<open>\<^verbatim>\<open>__analyze_reversal_es_start_pivot\<close>\<close>

record es_start_pivot =
  pct_es_higher_pp_start_then_reversal :: real
  pct_es_lower_pp_start_then_reversal :: real

definition analyze_reversal_es_start_pivot :: "table \<Rightarrow> error + es_start_pivot" where
  "analyze_reversal_es_start_pivot df =
     (let es_higher_pp_start = filter es_higher_pp df;
          es_lower_pp_start = filter es_lower_pp df
      in
      bind_e (pct (length (then_reversal es_higher_pp_start)) (length es_higher_pp_start)) (\<lambda>v1.
      bind_e (pct (length (then_reversal es_lower_pp_start)) (length es_lower_pp_start)) (\<lambda>v2.
      Inr \<lparr>pct_es_higher_pp_start_then_reversal = v1,
           pct_es_lower_pp_start_then_reversal = v2\<rparr>)))"

record reversal_report =
  rv_general :: general_reversal
  rv_each_trend :: reversal_each_trend
  rv_es_start_pivot :: es_start_pivot

definition analyze_reversal :: "table \<Rightarrow> error + reversal_report" where
  "analyze_reversal df =
     bind_e (analyze_general_reversal df) (\<lambda>g.
     bind_e (analyze_reversal_each_trend df (count_days_with_reversal g)) (\<lambda>t.
     bind_e (analyze_reversal_es_start_pivot df) (\<lambda>p.
     Inr \<lparr>rv_general = g, rv_each_trend = t, rv_es_start_pivot = p\<rparr>)))"

section \<open>\<^verbatim>\<open>__analyze_range\<close>\<close>

text \<open>
  One block per trend class, three times in the source. \<open>rs_ES_lt_PP\<close> is the row
  labelled \<^verbatim>\<open>"<class> ES<PP"\<close> and \<open>rs_ES_gt_PP\<close> the row labelled
  \<^verbatim>\<open>"<class> ES>PP"\<close>; the local names are the source's.
\<close>

record range_stats =
  rs_all :: "(int \<times> real) list"
  rs_ES_lt_PP :: "(int \<times> real) list"
  rs_ES_gt_PP :: "(int \<times> real) list"

definition range_stats :: "table \<Rightarrow> int \<Rightarrow> error + range_stats" where
  "range_stats cls bin =
     (let range_all_days = map col_max_range cls;
          range_es_lower_pp =
            map col_max_range
              (filter (\<lambda>r. col_es_pp r = Some 1 \<or> col_es_pp r = Some (- 1)) cls);
          range_es_higher_pp =
            map col_max_range
              (filter (\<lambda>r. col_es_pp r = Some 0 \<or> col_es_pp r = Some 2) cls)
      in
      bind_e (py_max range_all_days) (\<lambda>m.
      bind_e (calc_cpf range_all_days (py_int m) bin) (\<lambda>all_cpf.
      bind_e (calc_cpf range_es_lower_pp (py_int m) bin) (\<lambda>es_lower_pp_cpf.
      bind_e (calc_cpf range_es_higher_pp (py_int m) bin) (\<lambda>es_higher_pp_cpf.
      Inr \<lparr>rs_all = cpf_table all_cpf,
           rs_ES_lt_PP = zip (x_cpf all_cpf) (cpf es_lower_pp_cpf),
           rs_ES_gt_PP = zip (x_cpf all_cpf) (cpf es_higher_pp_cpf)\<rparr>)))))"

record range_report =
  rg_range :: range_stats
  rg_uptrend :: range_stats
  rg_downtrend :: range_stats

definition analyze_range :: "table \<Rightarrow> error + range_report" where
  "analyze_range df =
     bind_e (range_stats (es_range_df df) BIN_RANGE_CPF) (\<lambda>r.
     bind_e (range_stats (es_uptrend_df df) BIN_TREND_CPF) (\<lambda>u.
     bind_e (range_stats (es_downtrend_df df) BIN_TREND_CPF) (\<lambda>d.
     Inr \<lparr>rg_range = r, rg_uptrend = u, rg_downtrend = d\<rparr>)))"

section \<open>The contract of the CPF calculator in the words of the specification\<close>

text \<open>
  The thresholds "run from \<open>bin_width\<close> up to \<open>max_edge\<close> in steps of \<open>bin_width\<close>,
  with \<open>max_edge\<close> always included as the final threshold": the multiples
  \<open>k * bin_width\<close>, \<open>k \<ge> 1\<close>, below \<open>max_edge\<close>, then \<open>max_edge\<close> itself. For a
  bin width of at least one every such \<open>k\<close> is below \<open>max_edge\<close>, which bounds the
  enumeration.
\<close>

definition cpf_thresholds_spec :: "int \<Rightarrow> int \<Rightarrow> int list" where
  "cpf_thresholds_spec max_edge bin_width =
     map (\<lambda>k. int k * bin_width)
       (filter (\<lambda>k. int k * bin_width < max_edge) [1..<nat max_edge]) @ [max_edge]"

text \<open>"100 x (count of observations \<open>\<le> x\<close>) / (total observation count)".\<close>

definition cumulative_percentage_spec :: "real list \<Rightarrow> int \<Rightarrow> real" where
  "cumulative_percentage_spec data t =
     100 * real (length (filter (\<lambda>i. i \<le> real_of_int t) data)) / real (length data)"

text \<open>The same percentage at a time-of-day threshold.\<close>

definition time_percentage :: "time list \<Rightarrow> time \<Rightarrow> real" where
  "time_percentage data t = 100 * real (length (filter (\<lambda>i. i \<le> t) data)) / real (length data)"

text \<open>
  The share of the sessions of a trend class (code \<open>c\<close>) that have a reversal hour.
\<close>

definition pct_with_reversal_spec :: "table \<Rightarrow> int \<Rightarrow> real" where
  "pct_with_reversal_spec df c =
     100 * real (length (filter (\<lambda>s. col_trend s = Some c \<and> col_hour_trend_change s \<noteq> None) df)) /
       real (length (filter (\<lambda>s. col_trend s = Some c) df))"

section \<open>Example tables\<close>

definition blank_session :: session where
  "blank_session =
     \<lparr>col_trend = None, col_new_trend = None, col_hour_trend_change = None,
      col_max_range = 0, col_es_pp = None, col_first_rebound = None,
      col_second_rebound = None, col_pt_deep_rebound = None,
      col_no_perfect_rebound = None\<rparr>"

text \<open>A day given by its trend, new trend, reversal hour, range and open-vs-pivot code.\<close>

definition day :: "int \<Rightarrow> int option \<Rightarrow> time option \<Rightarrow> real \<Rightarrow> int \<Rightarrow> session" where
  "day tr nt h rg pp =
     \<lparr>col_trend = Some tr, col_new_trend = nt, col_hour_trend_change = h,
      col_max_range = rg, col_es_pp = Some pp, col_first_rebound = None,
      col_second_rebound = None, col_pt_deep_rebound = None,
      col_no_perfect_rebound = None\<rparr>"

text \<open>
  Ten sessions: three uptrend days, one of which reverses to a downtrend; three
  downtrend days, two of which reverse; four range days, one of which reverses.
\<close>

definition journal_10 :: table where
  "journal_10 =
     [day 1 (Some (- 1)) (Some (time_hm 10 0)) 25 1,
      day 1 None None 32 0,
      day 1 None None 18 1,
      day (- 1) (Some 1) (Some (time_hm 11 0)) 22 1,
      day (- 1) (Some 1) (Some (time_hm 12 30)) 35 0,
      day (- 1) None None 15 0,
      day 0 (Some 1) (Some (time_hm 13 0)) 8 0,
      day 0 None None 12 1,
      day 0 None None 6 0,
      day 0 None None 9 1]"

text \<open>A perfect, a deep and a failed rebound.\<close>

definition perfect_at :: "string \<Rightarrow> session" where
  "perfect_at point = blank_session\<lparr>col_first_rebound := Some point\<rparr>"

definition deep_at :: "string \<Rightarrow> real \<Rightarrow> session" where
  "deep_at point d =
     blank_session\<lparr>col_pt_deep_rebound := Some d, col_no_perfect_rebound := Some point\<rparr>"

definition failed_at :: "string \<Rightarrow> session" where
  "failed_at point = blank_session\<lparr>col_no_perfect_rebound := Some point\<rparr>"

text \<open>Six sessions with deep rebounds at each of the three levels, the last without a touch.\<close>

definition demark_6 :: table where
  "demark_6 =
     [perfect_at ''PP'', deep_at ''PP'' 5, deep_at ''S'' 3, deep_at ''R'' 4, failed_at ''R'',
      blank_session]"

text \<open>Four sessions with deep rebounds at the pivot and at the support, none at the resistance.\<close>

definition demark_no_deep_resistance :: table where
  "demark_no_deep_resistance =
     [perfect_at ''R'', deep_at ''PP'' 5, deep_at ''S'' 3, failed_at ''R'']"

text \<open>Three sessions that touch the pivot and the resistance, never the support.\<close>

definition demark_no_support :: table where
  "demark_no_support = [perfect_at ''PP'', deep_at ''PP'' 5, failed_at ''R'']"

text \<open>The three uptrend sessions of the ten-session table alone.\<close>

definition uptrend_only :: table where
  "uptrend_only =
     [day 1 (Some (- 1)) (Some (time_hm 10 0)) 25 1,
      day 1 None None 32 0,
      day 1 None None 18 1]"

text \<open>A class without a reversal, and a class whose only session has one.\<close>

definition uptrend_no_reversal :: table where
  "uptrend_no_reversal = [day 1 None None 32 0]"

definition uptrend_all_reversed :: table where
  "uptrend_all_reversed = [day 1 (Some (- 1)) (Some (time_hm 10 0)) 25 1]"

section \<open>Facts about the primitives\<close>

lemma bind_e_Inr_iff: "bind_e m f = Inr r \<longleftrightarrow> (\<exists>v. m = Inr v \<and> f v = Inr r)"
  by (cases m) (simp_all add: bind_e_def)

lemma bind_e_Inr [simp]: "bind_e (Inr v) f = f v"
  by (simp add: bind_e_def)

lemma bind_e_Inl [simp]: "bind_e (Inl e) f = Inl e"
  by (simp add: bind_e_def)

lemma py_div_nonzero: "b \<noteq> 0 \<Longrightarrow> py_div a b = Inr (a / b)"
  by (simp add: py_div_def)

lemma py_div_zero: "py_div a 0 = Inl ZeroDivisionError"
  by (simp add: py_div_def)

section \<open>The CPF calculators\<close>

lemma cpf_loop_nonzero:
  "n \<noteq> 0 \<Longrightarrow> cpf_loop le data n ts = Inr (map (\<lambda>t. 100 * real (length (filter (\<lambda>i. le i t) data)) / n) ts)"
  by (induction ts) (simp_all add: py_div_nonzero)

lemma cpf_loop_zero:
  "ts \<noteq> [] \<Longrightarrow> cpf_loop le data 0 ts = Inl ZeroDivisionError"
  by (cases ts) (simp_all add: py_div_zero)

lemma range_up_multiples:
  "0 < w \<Longrightarrow> nat m \<le> N \<Longrightarrow>
     range_up (int j * w) m w = map (\<lambda>k. int k * w) (filter (\<lambda>k. int k * w < m) [j..<N])"
proof (induction "int j * w" m w arbitrary: j rule: range_up.induct)
  case (1 stop step)
  show ?case
  proof (cases "int j * step < stop")
    case True
    have "int j * 1 \<le> int j * step"
      using 1(2) by (intro mult_left_mono) auto
    then have jN: "j < N" using True 1(3) by linarith
    have next_eq: "int j * step + step = int (Suc j) * step"
      by (simp add: algebra_simps)
    have "range_up (int j * step) stop step = int j * step # range_up (int (Suc j) * step) stop step"
      using True 1(2) next_eq by (subst range_up.simps) simp
    also have "range_up (int (Suc j) * step) stop step =
        map (\<lambda>k. int k * step) (filter (\<lambda>k. int k * step < stop) [Suc j..<N])"
      using 1(1) [of "Suc j"] True 1(2) 1(3) next_eq by simp
    finally show ?thesis using True jN by (simp add: upt_conv_Cons)
  next
    case False
    have "\<And>k. j \<le> k \<Longrightarrow> \<not> int k * step < stop"
    proof -
      fix k assume "j \<le> k"
      then have "int j * step \<le> int k * step"
        using 1(2) by (intro mult_right_mono) auto
      then show "\<not> int k * step < stop" using False by linarith
    qed
    then have "filter (\<lambda>k. int k * step < stop) [j..<N] = []"
      by (simp add: filter_empty_conv)
    then show ?thesis using False by (subst range_up.simps) simp
  qed
qed

lemma range_up_thresholds:
  "0 < w \<Longrightarrow> range_up w m w @ [m] = cpf_thresholds_spec m w"
  using range_up_multiples [of w m "nat m" 1] by (simp add: cpf_thresholds_spec_def)



lemma cpf_loop_spec:
  "data \<noteq> [] \<Longrightarrow>
     cpf_loop (\<lambda>i t. i \<le> real_of_int t) data (real (length data)) ts =
       Inr (map (cumulative_percentage_spec data) ts)"
  by (induction ts) (simp_all add: py_div_nonzero cumulative_percentage_spec_def)

lemma calc_cpf_Inr:
  assumes "data \<noteq> []" and "py_range bin_span bin_max bin_span = Inr ps"
  shows "calc_cpf data bin_max bin_span =
             Inr \<lparr>cpf = map (cumulative_percentage_spec data) (ps @ [bin_max]),
                  x_cpf = ps @ [bin_max]\<rparr>"
  unfolding calc_cpf_def Let_def assms(2) bind_e_Inr cpf_loop_spec [OF assms(1)] by (rule refl)


text \<open>
  Claim C1. For a non-empty sequence of observations and a positive bin width, the CPF
  calculator returns the thresholds \<open>bin_width, 2 * bin_width, ...\<close> below the maximum
  bin edge followed by the maximum bin edge itself, whether or not it is a multiple of
  the bin width, and pairs each threshold \<open>x\<close> with 100 times the count of observations
  \<open>\<le> x\<close> divided by the number of observations.
\<close>

theorem calc_cpf_contract:
  assumes "data \<noteq> []" and "0 < bin_span"
  shows "calc_cpf data bin_max bin_span =
           Inr \<lparr>cpf = map (cumulative_percentage_spec data) (cpf_thresholds_spec bin_max bin_span),
                x_cpf = cpf_thresholds_spec bin_max bin_span\<rparr>"
proof -
  have "py_range bin_span bin_max bin_span = Inr (range_up bin_span bin_max bin_span)"
    using assms(2) by (simp add: py_range_def)
  from calc_cpf_Inr [OF assms(1) this] show ?thesis
    unfolding range_up_thresholds [OF assms(2)] .
qed


lemma cpf_thresholds_12_5: "cpf_thresholds_spec 12 5 = [5, 10, 12]"
  by code_simp

text \<open>Three observations, maximum edge 12, bin width 5: the edge 12 closes the thresholds.\<close>

theorem calc_cpf_contract_witness:
  "calc_cpf [3, 7, 12] 12 5 = Inr \<lparr>cpf = [100 / 3, 200 / 3, 100], x_cpf = [5, 10, 12]\<rparr>"
  using calc_cpf_contract [of "[3, 7, 12]" 5 12]
  unfolding cpf_thresholds_12_5 by (simp add: cumulative_percentage_spec_def)


lemma length_filter_mono:
  "(\<And>v. P v \<Longrightarrow> Q v) \<Longrightarrow> length (filter P vs) \<le> length (filter Q vs)"
  by (induction vs) auto

lemma sorted_map_mono:
  "sorted ts \<Longrightarrow> (\<And>a b. a \<le> b \<Longrightarrow> f a \<le> f b) \<Longrightarrow> sorted (map f ts)"
  by (induction ts) auto

lemma cumulative_percentage_mono:
  "s \<le> t \<Longrightarrow> cumulative_percentage_spec data s \<le> cumulative_percentage_spec data t"
proof -
  assume st: "s \<le> t"
  have "length (filter (\<lambda>i. i \<le> real_of_int s) data) \<le> length (filter (\<lambda>i. i \<le> real_of_int t) data)"
    using st by (intro length_filter_mono) auto
  then show ?thesis
    by (simp add: cumulative_percentage_spec_def divide_right_mono)
qed

lemma cumulative_percentage_full:
  "data \<noteq> [] \<Longrightarrow> \<forall>d\<in>set data. d \<le> real_of_int t \<Longrightarrow> cumulative_percentage_spec data t = 100"
  by (simp add: cumulative_percentage_spec_def)

lemma sorted_cpf_thresholds: "0 < w \<Longrightarrow> sorted (cpf_thresholds_spec m w)"
proof -
  assume w: "0 < w"
  have s1: "sorted (map (\<lambda>k. int k * w) (filter (\<lambda>k. int k * w < m) [1..<nat m]))"
    using w by (intro sorted_map_mono sorted_wrt_filter) (auto intro: mult_right_mono)
  show ?thesis
    unfolding cpf_thresholds_spec_def using s1 by (auto simp: sorted_append)
qed

lemma calc_cpf_time_Inr:
  "data \<noteq> [] \<Longrightarrow>
     calc_cpf_time data = Inr \<lparr>cpf = map (time_percentage data) x_cpf_time, x_cpf = x_cpf_time\<rparr>"
proof -
  assume d: "data \<noteq> []"
  have "cpf_loop (\<lambda>i t. i \<le> t) data (real (length data)) ts = Inr (map (time_percentage data) ts)" for ts
    using d by (induction ts) (simp_all add: py_div_nonzero time_percentage_def)
  then show ?thesis by (simp add: calc_cpf_time_def Let_def)
qed

lemma time_percentage_mono: "s \<le> t \<Longrightarrow> time_percentage data s \<le> time_percentage data t"
proof -
  assume st: "s \<le> t"
  have "length (filter (\<lambda>i. i \<le> s) data) \<le> length (filter (\<lambda>i. i \<le> t) data)"
    using st by (intro length_filter_mono) auto
  then show ?thesis
    by (simp add: time_percentage_def divide_right_mono)
qed

lemma sorted_x_cpf_time: "sorted x_cpf_time"
  by (simp add: x_cpf_time_def time_hm_def)

lemma last_x_cpf_time: "last x_cpf_time = time_hm 15 0"
  by (simp add: x_cpf_time_def)

lemma x_cpf_time_nonempty: "x_cpf_time \<noteq> []"
  by (simp add: x_cpf_time_def)

lemma calc_cpf_empty: "bin_span \<noteq> 0 \<Longrightarrow> calc_cpf [] bin_max bin_span = Inl ZeroDivisionError"
  by (simp add: calc_cpf_def py_range_def Let_def cpf_loop_zero)

lemma calc_cpf_time_empty: "calc_cpf_time [] = Inl ZeroDivisionError"
  by (simp add: calc_cpf_time_def cpf_loop_zero x_cpf_time_nonempty)

lemma py_range_Inr: "step \<noteq> 0 \<Longrightarrow> \<exists>ps. py_range start stop step = Inr ps"
  by (simp add: py_range_def)

text \<open>
  Claim C3. For a non-empty sequence of observations both calculators return, and the
  cumulative percentage does not decrease as the threshold increases: a threshold that
  is not smaller has a percentage that is not smaller, and with a positive bin width,
  as with the fixed time thresholds, thresholds and percentages are both in ascending
  order. The last percentage is 100 when no observation exceeds the maximum bin edge
  (for times, the last threshold).
\<close>

theorem cpf_monotone:
  assumes "data \<noteq> []" and "bin_span \<noteq> 0" and "tdata \<noteq> []"
  shows "(\<exists>r. calc_cpf data bin_max bin_span = Inr r \<and> length (cpf r) = length (x_cpf r) \<and>
            (\<forall>i<length (x_cpf r). \<forall>j<length (x_cpf r).
               x_cpf r ! i \<le> x_cpf r ! j \<longrightarrow> cpf r ! i \<le> cpf r ! j) \<and>
            (0 < bin_span \<longrightarrow> sorted (x_cpf r) \<and> sorted (cpf r)) \<and>
            ((\<forall>d\<in>set data. d \<le> real_of_int bin_max) \<longrightarrow> last (cpf r) = 100)) \<and>
         (\<exists>r. calc_cpf_time tdata = Inr r \<and> x_cpf r = x_cpf_time \<and>
            length (cpf r) = length (x_cpf r) \<and> sorted (x_cpf r) \<and> sorted (cpf r) \<and>
            ((\<forall>d\<in>set tdata. d \<le> last (x_cpf r)) \<longrightarrow> last (cpf r) = 100))"
proof (rule conjI)
  obtain ps where ps: "py_range bin_span bin_max bin_span = Inr ps"
    using py_range_Inr [OF assms(2)] by blast
  let ?f = "cumulative_percentage_spec data"
  let ?xs = "ps @ [bin_max]"
  let ?r = "\<lparr>cpf = map ?f ?xs, x_cpf = ?xs\<rparr>"
  have r: "calc_cpf data bin_max bin_span = Inr ?r"
    by (rule calc_cpf_Inr [OF assms(1) ps])
  have pair: "\<forall>i<length ?xs. \<forall>j<length ?xs. ?xs ! i \<le> ?xs ! j \<longrightarrow> map ?f ?xs ! i \<le> map ?f ?xs ! j"
    using cumulative_percentage_mono by (simp del: map_append)
  have srt: "0 < bin_span \<longrightarrow> sorted ?xs \<and> sorted (map ?f ?xs)"
  proof
    assume pos: "0 < bin_span"
    have "ps = range_up bin_span bin_max bin_span"
      using ps pos by (simp add: py_range_def)
    then have "?xs = cpf_thresholds_spec bin_max bin_span"
      using range_up_thresholds [OF pos] by simp
    then have "sorted ?xs" using sorted_cpf_thresholds [OF pos] by simp
    then show "sorted ?xs \<and> sorted (map ?f ?xs)"
      using sorted_map_mono [of ?xs ?f] cumulative_percentage_mono by blast
  qed
  have lst: "(\<forall>d\<in>set data. d \<le> real_of_int bin_max) \<longrightarrow> last (map ?f ?xs) = 100"
    using cumulative_percentage_full [OF assms(1)] by simp
  show "\<exists>r. calc_cpf data bin_max bin_span = Inr r \<and> length (cpf r) = length (x_cpf r) \<and>
            (\<forall>i<length (x_cpf r). \<forall>j<length (x_cpf r).
               x_cpf r ! i \<le> x_cpf r ! j \<longrightarrow> cpf r ! i \<le> cpf r ! j) \<and>
            (0 < bin_span \<longrightarrow> sorted (x_cpf r) \<and> sorted (cpf r)) \<and>
            ((\<forall>d\<in>set data. d \<le> real_of_int bin_max) \<longrightarrow> last (cpf r) = 100)"
    using r pair srt lst by (intro exI [of _ ?r]) simp
next
  let ?g = "time_percentage tdata"
  let ?r = "\<lparr>cpf = map ?g x_cpf_time, x_cpf = x_cpf_time\<rparr>"
  have r: "calc_cpf_time tdata = Inr ?r"
    by (rule calc_cpf_time_Inr [OF assms(3)])
  have srt: "sorted (map ?g x_cpf_time)"
    using sorted_map_mono [OF sorted_x_cpf_time] time_percentage_mono by blast
  have lst: "(\<forall>d\<in>set tdata. d \<le> last x_cpf_time) \<longrightarrow> last (map ?g x_cpf_time) = 100"
    using assms(3) by (simp add: last_map x_cpf_time_nonempty time_percentage_def)
  show "\<exists>r. calc_cpf_time tdata = Inr r \<and> x_cpf r = x_cpf_time \<and>
            length (cpf r) = length (x_cpf r) \<and> sorted (x_cpf r) \<and> sorted (cpf r) \<and>
            ((\<forall>d\<in>set tdata. d \<le> last (x_cpf r)) \<longrightarrow> last (cpf r) = 100)"
    using r srt lst sorted_x_cpf_time by (intro exI [of _ ?r]) simp
qed


text \<open>The same three observations, and one reversal at 10:15.\<close>

theorem cpf_monotone_witness:
  "(\<exists>r. calc_cpf [3, 7, 12] 12 5 = Inr r \<and> sorted (cpf r) \<and> last (cpf r) = 100) \<and>
   (\<exists>r. calc_cpf_time [time_hm 10 15] = Inr r \<and> sorted (cpf r) \<and> last (cpf r) = 100)"
proof -
  have t: "time_hm 10 15 \<le> last x_cpf_time"
    by (simp add: last_x_cpf_time time_hm_def)
  show ?thesis
    using cpf_monotone [of "[3, 7, 12]" 5 "[time_hm 10 15]" 12] t by auto
qed

section \<open>The deep-rebound block on an empty cohort\<close>

lemma py_max_Inr: "vs \<noteq> [] \<Longrightarrow> \<exists>m. py_max vs = Inr m"
  by (cases vs) (simp_all add: py_max_def)

lemma deep_rebound_level_empty:
  assumes "pt_deep_rebound df \<noteq> []" and "pt_deep_rebound_at point df = []"
  shows "deep_rebound_level point df = Inl ZeroDivisionError"
proof -
  obtain m where m: "py_max (pt_deep_rebound df) = Inr m"
    using py_max_Inr [OF assms(1)] by blast
  show ?thesis
    unfolding deep_rebound_level_def m assms(2) bind_e_Inr
    by (simp add: calc_cpf_empty)
qed

section \<open>The rebound classifier\<close>

lemma set_rows_where: "set (rows_where p df) = {i. i < length df \<and> p (df ! i)}"
  by (auto simp: rows_where_def)

lemma distinct_rows_where: "distinct (rows_where p df)"
  by (simp add: rows_where_def)

text \<open>
  Claim C6. A row is classified as a failed (no) rebound exactly when its
  "No perfect rebound" cell is not null and the row is not in the deep-rebound row set,
  that is, its deep-rebound distance is null; the failed-rebound count plus the number
  of rows carrying both a "No perfect rebound" cell and a deep-rebound distance is the
  number of rows with a "No perfect rebound" cell.
\<close>

theorem no_rebound_classification:
  "set (rows_no_rebound df) =
     {i. i < length df \<and> col_no_perfect_rebound (df ! i) \<noteq> None \<and>
         col_pt_deep_rebound (df ! i) = None} \<and>
   set (rows_no_rebound df) = set (rows_no_perfect_rebound df) - set (rows_deep_rebound df) \<and>
   count_no_rebound (general_counts df) +
     length (rows_where (\<lambda>r. col_no_perfect_rebound r \<noteq> None \<and> col_pt_deep_rebound r \<noteq> None) df)
     = count_no_perfect_rebound (general_counts df)"
proof (intro conjI)
  show "set (rows_no_rebound df) =
     {i. i < length df \<and> col_no_perfect_rebound (df ! i) \<noteq> None \<and>
         col_pt_deep_rebound (df ! i) = None}"
    by (auto simp: rows_no_rebound_def rows_no_perfect_rebound_def rows_deep_rebound_def
        set_rows_where)
  show "set (rows_no_rebound df) = set (rows_no_perfect_rebound df) - set (rows_deep_rebound df)"
    by (auto simp: rows_no_rebound_def)
  have both: "rows_where (\<lambda>r. col_no_perfect_rebound r \<noteq> None \<and> col_pt_deep_rebound r \<noteq> None) df
      = filter (\<lambda>i. \<not> i \<notin> set (rows_deep_rebound df)) (rows_no_perfect_rebound df)"
    unfolding rows_where_def rows_no_perfect_rebound_def filter_filter
    by (rule filter_cong) (auto simp: rows_deep_rebound_def set_rows_where)
  show "count_no_rebound (general_counts df) +
     length (rows_where (\<lambda>r. col_no_perfect_rebound r \<noteq> None \<and> col_pt_deep_rebound r \<noteq> None) df)
     = count_no_perfect_rebound (general_counts df)"
    unfolding both
    using sum_length_filter_compl [of "\<lambda>i. i \<in> set (rows_deep_rebound df)" "rows_no_perfect_rebound df"]
    by (simp add: general_counts_def Let_def rows_no_rebound_def)
qed

text \<open>In the six-session table one of the four "No perfect rebound" rows is a failed rebound.\<close>

theorem no_rebound_classification_witness:
  "count_no_rebound (general_counts demark_6) = 1 \<and>
   count_no_perfect_rebound (general_counts demark_6) = 4 \<and>
   length (rows_where (\<lambda>r. col_no_perfect_rebound r \<noteq> None \<and> col_pt_deep_rebound r \<noteq> None)
     demark_6) = 3"
proof -
  have e: "count_no_rebound (general_counts demark_6) = 1 \<and>
      count_no_perfect_rebound (general_counts demark_6) = 4"
    by code_simp
  show ?thesis
    using no_rebound_classification [of demark_6] e by simp
qed

section \<open>Day-level rollups and per-level shares\<close>

lemma pct_Inr_iff: "pct a b = Inr v \<longleftrightarrow> b \<noteq> 0 \<and> v = 100 * real a / real b"
  by (auto simp: pct_def py_div_def)

lemma pct_nonzero: "b \<noteq> 0 \<Longrightarrow> pct a b = Inr (100 * real a / real b)"
  by (simp add: pct_def py_div_def)

lemma set_list_set [simp]: "set (list_set xs) = set xs"
  by (simp add: list_set_def)

lemma distinct_list_set [simp]: "distinct (list_set xs)"
  by (simp add: list_set_def)

lemma days_with_demark_bound: "set (days_with_demark df) \<subseteq> {0..<length df}"
  by (auto simp: days_with_demark_def days_with_rebound_def days_with_perfect_rebound_def
      days_with_deep_rebound_def days_with_no_rebound_def rows_no_rebound_def
      rows_first_rebound_def rows_deep_rebound_def rows_no_perfect_rebound_def set_rows_where)

lemma total_days_length [simp]: "total_days (general_counts df) = length df"
  by (simp add: general_counts_def Let_def)

lemma demark_days_lengths:
  "length (days_with_demark df) + length (days_with_no_demark df) = length df"
proof -
  let ?S = "set (days_with_demark df)"
  have d: "distinct (days_with_demark df)"
    by (simp add: days_with_demark_def)
  have a: "length (days_with_demark df) = card ?S"
    using d by (simp add: distinct_card)
  have "length (days_with_no_demark df) = card ({i. i \<notin> ?S} \<inter> set [0..<length df])"
    unfolding days_with_no_demark_def total_days_length
    by (rule distinct_length_filter) simp
  also have "{i. i \<notin> ?S} \<inter> set [0..<length df] = {0..<length df} - ?S"
    by auto
  also have "card ({0..<length df} - ?S) = length df - card ?S"
    using days_with_demark_bound [of df] by (simp add: card_Diff_subset)
  finally have b: "length (days_with_no_demark df) = length df - card ?S" .
  have "card ?S \<le> card {0..<length df}"
    using days_with_demark_bound [of df] by (intro card_mono) auto
  then show ?thesis using a b by simp
qed

lemma general_days_pct_Inr:
  "df \<noteq> [] \<Longrightarrow>
     general_days_pct df =
       Inr \<lparr>pct_days_with_rebound = 100 * real (length (days_with_rebound df)) / real (length df),
            pct_days_no_demark = 100 * real (length (days_with_no_demark df)) / real (length df),
            pct_days_with_demark = 100 * real (length (days_with_demark df)) / real (length df)\<rparr>"
  by (simp add: general_days_pct_def Let_def pct_nonzero)

lemma analyze_pivot_points_parts:
  assumes "analyze_pivot_points df = Inr r"
  shows "general_days_pct df = Inr (pr_general_days r)"
    and "level_stats ''PP'' df = Inr (pr_pivot r)"
    and "level_stats ''S'' df = Inr (pr_support r)"
    and "level_stats ''R'' df = Inr (pr_resistance r)"
    and "pr_general r = general_counts df"
  using assms unfolding analyze_pivot_points_def bind_e_Inr_iff by auto

text \<open>
  Claim C10. For a table with at least one row, the row sets "days with demark" and
  "days without demark" are disjoint and together are all the row indexes; the
  percentages "pct days with demark" and "pct days no demark" are computed and sum to
  100, also in the report of the whole analyzer whenever it returns one.
\<close>

theorem demark_days_partition:
  assumes "df \<noteq> []"
  shows "set (days_with_demark df) \<inter> set (days_with_no_demark df) = {} \<and>
         set (days_with_demark df) \<union> set (days_with_no_demark df) = {0..<length df} \<and>
         (\<exists>g. general_days_pct df = Inr g \<and>
              pct_days_with_demark g + pct_days_no_demark g = 100) \<and>
         (\<forall>r. analyze_pivot_points df = Inr r \<longrightarrow>
              pct_days_with_demark (pr_general_days r) + pct_days_no_demark (pr_general_days r)
                = 100)"
proof -
  have n: "real (length df) \<noteq> 0" using assms by simp
  have "real (length (days_with_demark df)) + real (length (days_with_no_demark df))
      = real (length df)"
    using demark_days_lengths [of df] by linarith
  then have s: "100 * real (length (days_with_demark df)) / real (length df) +
      100 * real (length (days_with_no_demark df)) / real (length df) = 100"
    using n by (simp add: field_simps)
  have p1: "set (days_with_demark df) \<inter> set (days_with_no_demark df) = {}"
    by (auto simp: days_with_no_demark_def)
  have p2: "set (days_with_demark df) \<union> set (days_with_no_demark df) = {0..<length df}"
    using days_with_demark_bound [of df] by (auto simp: days_with_no_demark_def)
  have p3: "\<exists>g. general_days_pct df = Inr g \<and>
      pct_days_with_demark g + pct_days_no_demark g = 100"
    using general_days_pct_Inr [OF assms] s by simp
  have p4: "\<forall>r. analyze_pivot_points df = Inr r \<longrightarrow>
      pct_days_with_demark (pr_general_days r) + pct_days_no_demark (pr_general_days r) = 100"
  proof (intro allI impI)
    fix r assume "analyze_pivot_points df = Inr r"
    then have "general_days_pct df = Inr (pr_general_days r)"
      by (rule analyze_pivot_points_parts)
    then have e: "pr_general_days r =
        \<lparr>pct_days_with_rebound = 100 * real (length (days_with_rebound df)) / real (length df),
         pct_days_no_demark = 100 * real (length (days_with_no_demark df)) / real (length df),
         pct_days_with_demark = 100 * real (length (days_with_demark df)) / real (length df)\<rparr>"
      using general_days_pct_Inr [OF assms] by simp
    show "pct_days_with_demark (pr_general_days r) + pct_days_no_demark (pr_general_days r) = 100"
      unfolding e using s by simp
  qed
  show ?thesis using p1 p2 p3 p4 by blast
qed

text \<open>The analyzer returns a report for the six-session table.\<close>

lemma demark_6_returns: "map_sum id (\<lambda>r. ()) (analyze_pivot_points demark_6) = Inr ()"
  by code_simp

theorem demark_days_partition_witness:
  "demark_6 \<noteq> [] \<and>
   (\<exists>r. analyze_pivot_points demark_6 = Inr r \<and>
        pct_days_with_demark (pr_general_days r) + pct_days_no_demark (pr_general_days r) = 100)"
proof -
  have ne: "demark_6 \<noteq> []" by (simp add: demark_6_def)
  obtain r where r: "analyze_pivot_points demark_6 = Inr r"
    using demark_6_returns by (cases "analyze_pivot_points demark_6") auto
  show ?thesis
    using demark_days_partition [OF ne] r ne by blast
qed


lemma count_list_three:
  "set xs \<subseteq> {a, b, c} \<Longrightarrow> a \<noteq> b \<Longrightarrow> a \<noteq> c \<Longrightarrow> b \<noteq> c \<Longrightarrow>
     count_list xs a + count_list xs b + count_list xs c = length xs"
  by (induction xs) auto

lemma general_counts_lengths:
  "count_perfect_rebound (general_counts df) = length (point_perfect_rebound df)"
  "count_deep_rebound (general_counts df) = length (point_deep_rebound df)"
  "count_no_rebound (general_counts df) = length (point_no_rebound df)"
  "count_points (general_counts df) =
     length (point_perfect_rebound df) + length (point_deep_rebound df) +
     length (point_no_rebound df)"
  by (simp_all add: general_counts_def Let_def point_perfect_rebound_def point_deep_rebound_def
      point_no_rebound_def rows_perfect_rebound_def)

lemma level_stats_Inr:
  assumes "level_stats point df = Inr l"
  shows "point_perfect_rebound df \<noteq> [] \<and> point_deep_rebound df \<noteq> [] \<and>
         point_no_rebound df \<noteq> [] \<and>
         pct_level_perfect_rebound l =
           100 * real (count_list (point_perfect_rebound df) (Some point)) /
             real (length (point_perfect_rebound df)) \<and>
         pct_level_deep_rebound l =
           100 * real (count_list (point_deep_rebound df) (Some point)) /
             real (length (point_deep_rebound df)) \<and>
         pct_level_no_rebound l =
           100 * real (count_list (point_no_rebound df) (Some point)) /
             real (length (point_no_rebound df)) \<and>
         pct_point l =
           100 * real (count_list (point_perfect_rebound df) (Some point) +
                       count_list (point_deep_rebound df) (Some point) +
                       count_list (point_no_rebound df) (Some point)) /
             real (length (point_perfect_rebound df) + length (point_deep_rebound df) +
                   length (point_no_rebound df))"
  using assms
  unfolding level_stats_def count_point_def Let_def prod.case bind_e_Inr_iff pct_Inr_iff
    general_counts_lengths
  by auto


lemma three_shares:
  fixes a b c n :: real
  assumes "a + b + c = n" and "n \<noteq> 0"
  shows "100 * a / n + 100 * b / n + 100 * c / n = 100"
proof -
  have "100 * a / n + 100 * b / n + 100 * c / n = 100 * (a + b + c) / n"
    by (simp add: add_divide_distrib distrib_left)
  then show ?thesis using assms by simp
qed

lemma shares_sum:
  assumes "set xs \<subseteq> {Some ''PP'', Some ''S'', Some ''R''}" and "xs \<noteq> []"
  shows "100 * real (count_list xs (Some ''PP'')) / real (length xs) +
         100 * real (count_list xs (Some ''S'')) / real (length xs) +
         100 * real (count_list xs (Some ''R'')) / real (length xs) = 100"
proof -
  have "count_list xs (Some ''PP'') + count_list xs (Some ''S'') + count_list xs (Some ''R'')
      = length xs"
    using assms(1) by (intro count_list_three) auto
  then have "real (count_list xs (Some ''PP'')) + real (count_list xs (Some ''S'')) +
      real (count_list xs (Some ''R'')) = real (length xs)"
    by linarith
  moreover have "real (length xs) \<noteq> 0" using assms(2) by simp
  ultimately show ?thesis by (rule three_shares)
qed

lemma level_blocks_sum:
  assumes "set (point_perfect_rebound df) \<union> set (point_deep_rebound df) \<union>
             set (point_no_rebound df) \<subseteq> {Some ''PP'', Some ''S'', Some ''R''}"
    and "level_stats ''PP'' df = Inr lp"
    and "level_stats ''S'' df = Inr ls"
    and "level_stats ''R'' df = Inr lr"
  shows "count_perfect_rebound (general_counts df) \<noteq> 0 \<and>
         count_deep_rebound (general_counts df) \<noteq> 0 \<and>
         count_no_rebound (general_counts df) \<noteq> 0 \<and>
         pct_point lp + pct_point ls + pct_point lr = 100 \<and>
         pct_level_perfect_rebound lp + pct_level_perfect_rebound ls +
           pct_level_perfect_rebound lr = 100 \<and>
         pct_level_deep_rebound lp + pct_level_deep_rebound ls + pct_level_deep_rebound lr = 100 \<and>
         pct_level_no_rebound lp + pct_level_no_rebound ls + pct_level_no_rebound lr = 100"
proof -
  let ?P = "point_perfect_rebound df"
  let ?D = "point_deep_rebound df"
  let ?N = "point_no_rebound df"
  note pp = level_stats_Inr [OF assms(2)]
  note ss = level_stats_Inr [OF assms(3)]
  note rr = level_stats_Inr [OF assms(4)]
  have ne: "?P \<noteq> []" "?D \<noteq> []" "?N \<noteq> []" using pp by simp_all
  have sub: "set ?P \<subseteq> {Some ''PP'', Some ''S'', Some ''R''}"
    "set ?D \<subseteq> {Some ''PP'', Some ''S'', Some ''R''}"
    "set ?N \<subseteq> {Some ''PP'', Some ''S'', Some ''R''}"
    using assms(1) by auto
  have c0: "count_perfect_rebound (general_counts df) \<noteq> 0 \<and>
      count_deep_rebound (general_counts df) \<noteq> 0 \<and> count_no_rebound (general_counts df) \<noteq> 0"
    unfolding general_counts_lengths using ne by simp
  have c2: "pct_level_perfect_rebound lp + pct_level_perfect_rebound ls +
      pct_level_perfect_rebound lr = 100"
    using pp ss rr shares_sum [OF sub(1) ne(1)] by simp
  have c3: "pct_level_deep_rebound lp + pct_level_deep_rebound ls + pct_level_deep_rebound lr = 100"
    using pp ss rr shares_sum [OF sub(2) ne(2)] by simp
  have c4: "pct_level_no_rebound lp + pct_level_no_rebound ls + pct_level_no_rebound lr = 100"
    using pp ss rr shares_sum [OF sub(3) ne(3)] by simp
  have tot: "real (length ?P + length ?D + length ?N) \<noteq> 0"
    using ne by (simp del: of_nat_add)
  have sums:
    "count_list ?P (Some ''PP'') + count_list ?P (Some ''S'') + count_list ?P (Some ''R'') = length ?P"
    "count_list ?D (Some ''PP'') + count_list ?D (Some ''S'') + count_list ?D (Some ''R'') = length ?D"
    "count_list ?N (Some ''PP'') + count_list ?N (Some ''S'') + count_list ?N (Some ''R'') = length ?N"
    using sub by (auto intro!: count_list_three)
  have "real (count_list ?P (Some ''PP'') + count_list ?D (Some ''PP'') + count_list ?N (Some ''PP'')) +
        real (count_list ?P (Some ''S'') + count_list ?D (Some ''S'') + count_list ?N (Some ''S'')) +
        real (count_list ?P (Some ''R'') + count_list ?D (Some ''R'') + count_list ?N (Some ''R''))
        = real (length ?P + length ?D + length ?N)"
    using sums by linarith
  then have
    "100 * real (count_list ?P (Some ''PP'') + count_list ?D (Some ''PP'') + count_list ?N (Some ''PP''))
         / real (length ?P + length ?D + length ?N) +
     100 * real (count_list ?P (Some ''S'') + count_list ?D (Some ''S'') + count_list ?N (Some ''S''))
         / real (length ?P + length ?D + length ?N) +
     100 * real (count_list ?P (Some ''R'') + count_list ?D (Some ''R'') + count_list ?N (Some ''R''))
         / real (length ?P + length ?D + length ?N) = 100"
    using tot by (rule three_shares)
  then have c1: "pct_point lp + pct_point ls + pct_point lr = 100"
    using pp ss rr by simp
  show ?thesis using c0 c1 c2 c3 c4 by blast
qed

lemma count_rebound_length:
  "count_rebound (general_counts df) =
     length (point_perfect_rebound df) + length (point_deep_rebound df)"
  by (simp add: general_counts_def Let_def point_perfect_rebound_def point_deep_rebound_def
      rows_perfect_rebound_def)

lemma level_stats_returns:
  assumes "point_perfect_rebound df \<noteq> []" and "point_deep_rebound df \<noteq> []"
    and "point_no_rebound df \<noteq> []"
    and "Some point \<in> set (point_perfect_rebound df) \<union> set (point_deep_rebound df) \<union>
           set (point_no_rebound df)"
  shows "\<exists>l. level_stats point df = Inr l"
proof -
  have t: "count_list (point_perfect_rebound df) (Some point) +
      count_list (point_deep_rebound df) (Some point) +
      count_list (point_no_rebound df) (Some point) \<noteq> 0"
    using assms(4) by (auto simp: count_list_0_iff)
  show ?thesis
    unfolding level_stats_def count_point_def Let_def prod.case general_counts_lengths
      count_rebound_length
    using assms(1-3) t by (simp add: pct_nonzero)
qed

lemma map_filter_nonempty:
  "xs \<noteq> [] \<Longrightarrow> \<forall>i\<in>set xs. f i \<noteq> None \<Longrightarrow> List.map_filter f xs \<noteq> []"
  by (cases xs) (auto simp: List.map_filter_def)

lemma rows_deep_cells: "\<forall>i\<in>set (rows_deep_rebound df). col_pt_deep_rebound (df ! i) \<noteq> None"
  by (simp add: rows_deep_rebound_def set_rows_where)

lemma pt_deep_rebound_nonempty:
  "point_deep_rebound df \<noteq> [] \<Longrightarrow> pt_deep_rebound df \<noteq> []"
  unfolding pt_deep_rebound_def point_deep_rebound_def
  using rows_deep_cells by (intro map_filter_nonempty) auto

lemma pt_deep_rebound_at_nonempty:
  assumes "Some point \<in> set (point_deep_rebound df)"
  shows "pt_deep_rebound_at point df \<noteq> []"
proof -
  have "filter (\<lambda>i. col_no_perfect_rebound (df ! i) = Some point) (rows_deep_rebound df) \<noteq> []"
    using assms by (auto simp: point_deep_rebound_def filter_empty_conv)
  then show ?thesis
    unfolding pt_deep_rebound_at_def using rows_deep_cells
    by (intro map_filter_nonempty) auto
qed

lemma calc_cpf_returns:
  "data \<noteq> [] \<Longrightarrow> bin_span \<noteq> 0 \<Longrightarrow> \<exists>c. calc_cpf data bin_max bin_span = Inr c"
  using py_range_Inr calc_cpf_Inr by blast

lemma deep_rebound_general_returns:
  assumes "point_deep_rebound df \<noteq> []"
  shows "\<exists>s. deep_rebound_general df = Inr s"
proof -
  have ne: "pt_deep_rebound df \<noteq> []" by (rule pt_deep_rebound_nonempty [OF assms])
  obtain m where m: "py_max (pt_deep_rebound df) = Inr m"
    using py_max_Inr [OF ne] by blast
  obtain c where c: "calc_cpf (pt_deep_rebound df) (py_int m) 2 = Inr c"
    using calc_cpf_returns [OF ne, of 2] by auto
  show ?thesis by (simp add: deep_rebound_general_def m c)
qed

lemma deep_rebound_level_returns:
  assumes "Some point \<in> set (point_deep_rebound df)"
  shows "\<exists>s. deep_rebound_level point df = Inr s"
proof -
  have d: "point_deep_rebound df \<noteq> []" using assms by auto
  have ne: "pt_deep_rebound df \<noteq> []" by (rule pt_deep_rebound_nonempty [OF d])
  have nl: "pt_deep_rebound_at point df \<noteq> []" by (rule pt_deep_rebound_at_nonempty [OF assms])
  obtain m where m: "py_max (pt_deep_rebound df) = Inr m"
    using py_max_Inr [OF ne] by blast
  obtain c where c: "calc_cpf (pt_deep_rebound_at point df) (py_int m) 2 = Inr c"
    using calc_cpf_returns [OF nl, of 2] by auto
  show ?thesis using ne by (simp add: deep_rebound_level_def m c pct_nonzero)
qed

lemma demark_days_stats_returns:
  assumes "point_deep_rebound df \<noteq> []"
  shows "\<exists>s. demark_days_stats df = Inr s"
proof -
  have "set (rows_deep_rebound df) \<subseteq> set (days_with_demark df)"
    by (auto simp: days_with_demark_def days_with_rebound_def days_with_deep_rebound_def)
  moreover have "rows_deep_rebound df \<noteq> []" using assms by (simp add: point_deep_rebound_def)
  ultimately have "days_with_demark df \<noteq> []" by (cases "rows_deep_rebound df") auto
  then show ?thesis by (simp add: demark_days_stats_def Let_def pct_nonzero)
qed

lemma general_points_pct_returns:
  assumes "point_deep_rebound df \<noteq> []"
  shows "\<exists>s. general_points_pct df = Inr s"
  using assms
  by (simp add: general_points_pct_def Let_def pct_nonzero general_counts_lengths
      count_rebound_length)

lemma no_rebound_stats_returns:
  assumes "point_no_rebound df \<noteq> []"
  shows "\<exists>s. no_rebound_stats df = Inr s"
proof -
  have "length (rows_no_rebound df) \<noteq> 0" using assms by (simp add: point_no_rebound_def)
  then show ?thesis by (simp add: no_rebound_stats_def Let_def pct_nonzero)
qed

lemma analyze_pivot_points_returns:
  assumes P: "point_perfect_rebound df \<noteq> []" and N: "point_no_rebound df \<noteq> []"
    and D: "{Some ''PP'', Some ''S'', Some ''R''} \<subseteq> set (point_deep_rebound df)"
  shows "\<exists>r. analyze_pivot_points df = Inr r"
proof -
  have Dn: "point_deep_rebound df \<noteq> []" using D by auto
  have df: "df \<noteq> []" using Dn by (auto simp: point_deep_rebound_def rows_deep_rebound_def rows_where_def)
  obtain dd where dd: "demark_days_stats df = Inr dd"
    using demark_days_stats_returns [OF Dn] by blast
  obtain gd where gd: "general_days_pct df = Inr gd"
    using general_days_pct_Inr [OF df] by blast
  obtain gp where gp: "general_points_pct df = Inr gp"
    using general_points_pct_returns [OF Dn] by blast
  obtain lp where lp: "level_stats ''PP'' df = Inr lp"
    using level_stats_returns [OF P Dn N, of "''PP''"] D by auto
  obtain ls where ls: "level_stats ''S'' df = Inr ls"
    using level_stats_returns [OF P Dn N, of "''S''"] D by auto
  obtain lr where lr: "level_stats ''R'' df = Inr lr"
    using level_stats_returns [OF P Dn N, of "''R''"] D by auto
  obtain dg where dg: "deep_rebound_general df = Inr dg"
    using deep_rebound_general_returns [OF Dn] by blast
  obtain dp where dp: "deep_rebound_level ''PP'' df = Inr dp"
    using deep_rebound_level_returns [of "''PP''" df] D by auto
  obtain ds where ds: "deep_rebound_level ''S'' df = Inr ds"
    using deep_rebound_level_returns [of "''S''" df] D by auto
  obtain dr where dr: "deep_rebound_level ''R'' df = Inr dr"
    using deep_rebound_level_returns [of "''R''" df] D by auto
  obtain nr where nr: "no_rebound_stats df = Inr nr"
    using no_rebound_stats_returns [OF N] by blast
  show ?thesis
    by (simp add: analyze_pivot_points_def dd gd gp lp ls lr dg dp ds dr nr)
qed

text \<open>
  Claim C7, as the code has it. Assume every recorded touch is one of PP, S and R. When
  the count of every touch category is non-zero and every level has a touch, the three
  per-level blocks return, their three "pct point" shares sum to 100, and so do the
  three per-level shares of the perfect rebounds, of the deep rebounds and of the
  failed rebounds: no touch is counted for two levels. When moreover every level has a
  deep rebound, the analyzer returns a report; and every report of the analyzer has
  these sums.
\<close>

theorem level_shares_sum:
  assumes "set (point_perfect_rebound df) \<union> set (point_deep_rebound df) \<union>
             set (point_no_rebound df) \<subseteq> {Some ''PP'', Some ''S'', Some ''R''}"
  shows "(count_perfect_rebound (general_counts df) \<noteq> 0 \<and>
          count_deep_rebound (general_counts df) \<noteq> 0 \<and>
          count_no_rebound (general_counts df) \<noteq> 0 \<and>
          {Some ''PP'', Some ''S'', Some ''R''} \<subseteq>
            set (point_perfect_rebound df) \<union> set (point_deep_rebound df) \<union>
            set (point_no_rebound df)
          \<longrightarrow> (\<exists>lp ls lr. level_stats ''PP'' df = Inr lp \<and> level_stats ''S'' df = Inr ls \<and>
                 level_stats ''R'' df = Inr lr \<and>
               pct_point lp + pct_point ls + pct_point lr = 100 \<and>
               pct_level_perfect_rebound lp + pct_level_perfect_rebound ls +
                 pct_level_perfect_rebound lr = 100 \<and>
               pct_level_deep_rebound lp + pct_level_deep_rebound ls +
                 pct_level_deep_rebound lr = 100 \<and>
               pct_level_no_rebound lp + pct_level_no_rebound ls +
                 pct_level_no_rebound lr = 100)) \<and>
         (count_perfect_rebound (general_counts df) \<noteq> 0 \<and>
          count_no_rebound (general_counts df) \<noteq> 0 \<and>
          {Some ''PP'', Some ''S'', Some ''R''} \<subseteq> set (point_deep_rebound df)
          \<longrightarrow> (\<exists>r. analyze_pivot_points df = Inr r)) \<and>
         (\<forall>r. analyze_pivot_points df = Inr r \<longrightarrow>
            pct_point (pr_pivot r) + pct_point (pr_support r) + pct_point (pr_resistance r) = 100 \<and>
            pct_level_perfect_rebound (pr_pivot r) + pct_level_perfect_rebound (pr_support r) +
              pct_level_perfect_rebound (pr_resistance r) = 100 \<and>
            pct_level_deep_rebound (pr_pivot r) + pct_level_deep_rebound (pr_support r) +
              pct_level_deep_rebound (pr_resistance r) = 100 \<and>
            pct_level_no_rebound (pr_pivot r) + pct_level_no_rebound (pr_support r) +
              pct_level_no_rebound (pr_resistance r) = 100)"
proof (intro conjI allI impI)
  assume a: "count_perfect_rebound (general_counts df) \<noteq> 0 \<and>
          count_deep_rebound (general_counts df) \<noteq> 0 \<and>
          count_no_rebound (general_counts df) \<noteq> 0 \<and>
          {Some ''PP'', Some ''S'', Some ''R''} \<subseteq>
            set (point_perfect_rebound df) \<union> set (point_deep_rebound df) \<union>
            set (point_no_rebound df)"
  then have ne: "point_perfect_rebound df \<noteq> []" "point_deep_rebound df \<noteq> []"
    "point_no_rebound df \<noteq> []"
    by (simp_all add: general_counts_lengths)
  obtain lp where lp: "level_stats ''PP'' df = Inr lp"
    using level_stats_returns [OF ne, of "''PP''"] a by auto
  obtain ls where ls: "level_stats ''S'' df = Inr ls"
    using level_stats_returns [OF ne, of "''S''"] a by auto
  obtain lr where lr: "level_stats ''R'' df = Inr lr"
    using level_stats_returns [OF ne, of "''R''"] a by auto
  note s = level_blocks_sum [OF assms lp ls lr]
  show "\<exists>lp ls lr. level_stats ''PP'' df = Inr lp \<and> level_stats ''S'' df = Inr ls \<and>
      level_stats ''R'' df = Inr lr \<and>
               pct_point lp + pct_point ls + pct_point lr = 100 \<and>
               pct_level_perfect_rebound lp + pct_level_perfect_rebound ls +
                 pct_level_perfect_rebound lr = 100 \<and>
               pct_level_deep_rebound lp + pct_level_deep_rebound ls +
                 pct_level_deep_rebound lr = 100 \<and>
               pct_level_no_rebound lp + pct_level_no_rebound ls +
                 pct_level_no_rebound lr = 100"
    using lp ls lr s by blast
next
  assume a: "count_perfect_rebound (general_counts df) \<noteq> 0 \<and>
          count_no_rebound (general_counts df) \<noteq> 0 \<and>
          {Some ''PP'', Some ''S'', Some ''R''} \<subseteq> set (point_deep_rebound df)"
  then have ne: "point_perfect_rebound df \<noteq> []" "point_no_rebound df \<noteq> []"
    by (simp_all add: general_counts_lengths)
  show "\<exists>r. analyze_pivot_points df = Inr r"
    using analyze_pivot_points_returns [OF ne] a by blast
next
  fix r assume r: "analyze_pivot_points df = Inr r"
  note s = level_blocks_sum [OF assms analyze_pivot_points_parts(2-4) [OF r]]
  show "pct_point (pr_pivot r) + pct_point (pr_support r) + pct_point (pr_resistance r) = 100"
    using s by blast
  show "pct_level_perfect_rebound (pr_pivot r) + pct_level_perfect_rebound (pr_support r) +
      pct_level_perfect_rebound (pr_resistance r) = 100" using s by blast
  show "pct_level_deep_rebound (pr_pivot r) + pct_level_deep_rebound (pr_support r) +
      pct_level_deep_rebound (pr_resistance r) = 100" using s by blast
  show "pct_level_no_rebound (pr_pivot r) + pct_level_no_rebound (pr_support r) +
      pct_level_no_rebound (pr_resistance r) = 100" using s by blast
qed

lemma demark_6_touches:
  "set (point_perfect_rebound demark_6) \<union> set (point_deep_rebound demark_6) \<union>
     set (point_no_rebound demark_6) \<subseteq> {Some ''PP'', Some ''S'', Some ''R''}"
  by code_simp

lemma demark_6_counts:
  "count_perfect_rebound (general_counts demark_6) \<noteq> 0 \<and>
   count_deep_rebound (general_counts demark_6) \<noteq> 0 \<and>
   count_no_rebound (general_counts demark_6) \<noteq> 0 \<and>
   {Some ''PP'', Some ''S'', Some ''R''} \<subseteq> set (point_deep_rebound demark_6)"
  by code_simp

text \<open>The six-session table: shares 40, 20 and 40 of the points.\<close>

theorem level_shares_sum_witness:
  "(\<exists>lp ls lr. level_stats ''PP'' demark_6 = Inr lp \<and> level_stats ''S'' demark_6 = Inr ls \<and>
       level_stats ''R'' demark_6 = Inr lr \<and> pct_point lp + pct_point ls + pct_point lr = 100) \<and>
   (\<exists>r. analyze_pivot_points demark_6 = Inr r \<and>
     pct_point (pr_pivot r) + pct_point (pr_support r) + pct_point (pr_resistance r) = 100 \<and>
     pct_level_deep_rebound (pr_pivot r) + pct_level_deep_rebound (pr_support r) +
       pct_level_deep_rebound (pr_resistance r) = 100)"
proof -
  note t = level_shares_sum [OF demark_6_touches]
  have d: "{Some ''PP'', Some ''S'', Some ''R''} \<subseteq>
      set (point_perfect_rebound demark_6) \<union> set (point_deep_rebound demark_6) \<union>
      set (point_no_rebound demark_6)"
    using demark_6_counts by blast
  have b: "\<exists>lp ls lr. level_stats ''PP'' demark_6 = Inr lp \<and> level_stats ''S'' demark_6 = Inr ls \<and>
       level_stats ''R'' demark_6 = Inr lr \<and> pct_point lp + pct_point ls + pct_point lr = 100"
    using t demark_6_counts d by blast
  obtain r where r: "analyze_pivot_points demark_6 = Inr r"
    using t demark_6_counts by blast
  show ?thesis
    using b t r by blast
qed

text \<open>
  The hypotheses of claim C7 alone do not make the shares exist. In the table that never
  touches the support every touch is one of PP, S and R and every touch category has
  one touch, but the support block divides by its total of zero touches: the block and
  the analyzer raise \<^verbatim>\<open>ZeroDivisionError\<close>, and no share is reported.
\<close>

theorem level_shares_undefined:
  "set (point_perfect_rebound demark_no_support) \<union> set (point_deep_rebound demark_no_support) \<union>
     set (point_no_rebound demark_no_support) \<subseteq> {Some ''PP'', Some ''S'', Some ''R''} \<and>
   count_perfect_rebound (general_counts demark_no_support) = 1 \<and>
   count_deep_rebound (general_counts demark_no_support) = 1 \<and>
   count_no_rebound (general_counts demark_no_support) = 1 \<and>
   level_stats ''S'' demark_no_support = Inl ZeroDivisionError \<and>
   analyze_pivot_points demark_no_support = Inl ZeroDivisionError"
  by code_simp

section \<open>The reversal analyzer\<close>

lemma time_cells_Inr:
  "None \<notin> set vs \<Longrightarrow> \<exists>ts. time_cells vs = Inr ts \<and> length ts = length vs"
  by (induction vs rule: time_cells.induct) auto

lemma calc_cpf_time_returns: "ts \<noteq> [] \<Longrightarrow> \<exists>c. calc_cpf_time ts = Inr c"
  using calc_cpf_time_Inr by blast

lemma hour_reversal_cpf_returns:
  assumes "\<forall>s\<in>set cls. (col_new_trend s \<noteq> None) = (col_hour_trend_change s \<noteq> None)"
    and "\<exists>s\<in>set cls. col_hour_trend_change s \<noteq> None"
  shows "\<exists>h. hour_reversal_cpf cls = Inr h"
proof -
  let ?vs = "map col_hour_trend_change (filter (\<lambda>r. col_new_trend r \<noteq> None) cls)"
  have ne: "?vs \<noteq> []"
    using assms by (auto simp: filter_empty_conv)
  have "None \<notin> set ?vs" using assms(1) by auto
  then obtain ts where ts: "time_cells ?vs = Inr ts" "length ts = length ?vs"
    using time_cells_Inr by blast
  then have "ts \<noteq> []" using ne by auto
  then obtain c where "calc_cpf_time ts = Inr c"
    using calc_cpf_time_returns by blast
  then have "calc_cpf_time_cells ?vs = Inr c"
    using ne ts(1) by (simp add: calc_cpf_time_cells_def)
  then show ?thesis by (simp add: hour_reversal_cpf_def)
qed

lemma trend_day_returns:
  assumes "\<forall>s\<in>set cls. (col_new_trend s \<noteq> None) = (col_hour_trend_change s \<noteq> None)"
    and "\<exists>s\<in>set cls. col_hour_trend_change s \<noteq> None"
    and "d \<noteq> 0"
  shows "\<exists>t. trend_day cls d = Inr t"
proof -
  obtain h where h: "hour_reversal_cpf cls = Inr h"
    using hour_reversal_cpf_returns [OF assms(1,2)] by blast
  have r: "then_reversal cls \<noteq> []"
    using assms(2) by (auto simp: then_reversal_def filter_empty_conv)
  then have c: "cls \<noteq> []" by (auto simp: then_reversal_def)
  show ?thesis
    using h r c assms(3) by (simp add: trend_day_def Let_def pct_nonzero)
qed

lemma trend_day_Inr:
  assumes "trend_day cls d = Inr t"
  shows "cls \<noteq> [] \<and> td_count t = length cls \<and>
         td_pct_with_reversal t = 100 * real (length (then_reversal cls)) / real (length cls) \<and>
         td_pct_reversal_es_lower_pp t =
           100 * real (length (filter es_lower_pp (then_reversal cls))) / real d \<and>
         td_pct_reversal_es_higher_pp t =
           100 * real (length (filter es_higher_pp (then_reversal cls))) /
             real (length (then_reversal cls))"
  using assms unfolding trend_day_def Let_def bind_e_Inr_iff pct_Inr_iff by auto

lemma analyze_reversal_parts:
  assumes "analyze_reversal df = Inr rep"
  shows "trend_day (es_uptrend_df df) (length (es_uptrend_then_reversal_df df))
           = Inr (re_uptrend_day (rv_each_trend rep))"
    and "trend_day (es_downtrend_df df) (length (es_downtrend_then_reversal_df df))
           = Inr (re_downtrend_day (rv_each_trend rep))"
    and "trend_day (es_range_df df) (length (es_downtrend_then_reversal_df df))
           = Inr (re_range_day (rv_each_trend rep))"
  using assms unfolding analyze_reversal_def analyze_reversal_each_trend_def bind_e_Inr_iff
  by auto


lemma class_nonempty:
  "\<exists>s\<in>set df. col_trend s = Some c \<and> col_hour_trend_change s \<noteq> None \<Longrightarrow>
     then_reversal (filter (\<lambda>r. col_trend r = Some c) df) \<noteq> [] \<and>
     filter (\<lambda>r. col_trend r = Some c) df \<noteq> [] \<and>
     (\<exists>s\<in>set (filter (\<lambda>r. col_trend r = Some c) df). col_hour_trend_change s \<noteq> None)"
  by (auto simp: then_reversal_def filter_empty_conv)

lemma analyze_reversal_returns:
  assumes inv: "\<forall>s\<in>set df. (col_new_trend s \<noteq> None) = (col_hour_trend_change s \<noteq> None)"
    and up: "\<exists>s\<in>set df. col_trend s = Some 1 \<and> col_hour_trend_change s \<noteq> None"
    and dn: "\<exists>s\<in>set df. col_trend s = Some (- 1) \<and> col_hour_trend_change s \<noteq> None"
    and rg: "\<exists>s\<in>set df. col_trend s = Some 0 \<and> col_hour_trend_change s \<noteq> None"
    and hi: "\<exists>s\<in>set df. es_higher_pp s"
    and lo: "\<exists>s\<in>set df. es_lower_pp s"
  shows "\<exists>rep. analyze_reversal df = Inr rep"
proof -
  note u = class_nonempty [OF up, folded es_uptrend_df_def]
  note d = class_nonempty [OF dn, folded es_downtrend_df_def]
  note r = class_nonempty [OF rg, folded es_range_df_def]
  have ne: "df \<noteq> []" using up by fastforce
  have ex: "\<exists>s\<in>set df. col_hour_trend_change s \<noteq> None" using up by blast
  have nrev: "length (es_price_with_reversal_df df) \<noteq> 0"
    using ex by (simp add: es_price_with_reversal_df_def filter_empty_conv)
  have g: "analyze_general_reversal df =
      Inr \<lparr>count_days_with_reversal = length (es_price_with_reversal_df df),
           pct_with_reversal = 100 * real (length (es_price_with_reversal_df df)) / real (length df)\<rparr>"
    using ne by (simp add: analyze_general_reversal_def Let_def pct_nonzero)
  obtain hg where hg: "hour_reversal_cpf df = Inr hg"
    using hour_reversal_cpf_returns [OF inv ex] by blast
  obtain cp where cp: "class_pct df = Inr cp"
    using u d r
    by (simp add: class_pct_def pct_nonzero es_uptrend_then_reversal_df_def
        es_downtrend_then_reversal_df_def es_range_then_reversal_df_def)
  obtain rd where rd: "reversal_day df (length (es_price_with_reversal_df df)) = Inr rd"
    using nrev by (simp add: reversal_day_def Let_def pct_nonzero)
  have invc: "\<And>p. \<forall>s\<in>set (filter p df). (col_new_trend s \<noteq> None) = (col_hour_trend_change s \<noteq> None)"
    using inv by auto
  obtain tu where tu: "trend_day (es_uptrend_df df) (length (es_uptrend_then_reversal_df df)) = Inr tu"
    using trend_day_returns [OF invc [of "\<lambda>r. col_trend r = Some 1", folded es_uptrend_df_def]] u
    by (auto simp: es_uptrend_then_reversal_df_def)
  obtain td where td: "trend_day (es_downtrend_df df) (length (es_downtrend_then_reversal_df df)) = Inr td"
    using trend_day_returns [OF invc [of "\<lambda>r. col_trend r = Some (- 1)", folded es_downtrend_df_def]] d
    by (auto simp: es_downtrend_then_reversal_df_def)
  obtain tr where tr: "trend_day (es_range_df df) (length (es_downtrend_then_reversal_df df)) = Inr tr"
    using trend_day_returns [OF invc [of "\<lambda>r. col_trend r = Some 0", folded es_range_df_def]] r d
    by (auto simp: es_downtrend_then_reversal_df_def)
  have "filter (\<lambda>r. col_new_trend r \<noteq> None) (es_range_df df) \<noteq> []"
    using rg inv by (auto simp: es_range_df_def filter_empty_conv)
  then obtain rr where rr: "range_then_reversal df = Inr rr"
    by (simp add: range_then_reversal_def Let_def pct_nonzero)
  obtain sp where sp: "analyze_reversal_es_start_pivot df = Inr sp"
    using hi lo
    by (simp add: analyze_reversal_es_start_pivot_def Let_def pct_nonzero filter_empty_conv)
  show ?thesis
    by (simp add: analyze_reversal_def analyze_reversal_each_trend_def g hg cp rd tu td tr rr sp)
qed


lemma then_reversal_class:
  "then_reversal (filter (\<lambda>r. col_trend r = Some c) df) =
     filter (\<lambda>s. col_trend s = Some c \<and> col_hour_trend_change s \<noteq> None) df"
  by (simp add: then_reversal_def conj_commute)

lemma round_py_third: "round_py (100 * real 1 / real 3) = 333 / 10"
  by (simp add: round_py_def py_int_def FACTOR_ROUND_def)

lemma third_to_one_decimal: "333 / 10 - 1 / 20 \<le> 100 * real 1 / real 3 \<and> 100 * real 1 / real 3 < 333 / 10 + 1 / 20"
  by simp

text \<open>
  Claim C8, as the code has it. Assume that "New trend" is null exactly when
  "Hour trend change" is. When every trend class has a session with a reversal and each
  of the two open-vs-pivot buckets has a session, the analyzer returns a report in which
  the "% with reversal" of each class is 100 times the number of sessions of the class
  with a reversal hour divided by the number of sessions of the class. Every report of
  the analyzer has these values, and each class has a session there. With three uptrend
  sessions, one of them with a reversal, the value is 33.3 to one decimal, truncated or
  rounded to the nearest tenth.
\<close>

theorem pct_with_reversal_per_class:
  assumes inv: "\<forall>s\<in>set df. (col_new_trend s \<noteq> None) = (col_hour_trend_change s \<noteq> None)"
  shows "((\<exists>s\<in>set df. col_trend s = Some 1 \<and> col_hour_trend_change s \<noteq> None) \<and>
          (\<exists>s\<in>set df. col_trend s = Some (- 1) \<and> col_hour_trend_change s \<noteq> None) \<and>
          (\<exists>s\<in>set df. col_trend s = Some 0 \<and> col_hour_trend_change s \<noteq> None) \<and>
          (\<exists>s\<in>set df. es_higher_pp s) \<and> (\<exists>s\<in>set df. es_lower_pp s)
            \<longrightarrow> (\<exists>rep. analyze_reversal df = Inr rep \<and>
            td_pct_with_reversal (re_uptrend_day (rv_each_trend rep)) = pct_with_reversal_spec df 1 \<and>
            td_pct_with_reversal (re_downtrend_day (rv_each_trend rep)) =
              pct_with_reversal_spec df (- 1) \<and>
            td_pct_with_reversal (re_range_day (rv_each_trend rep)) = pct_with_reversal_spec df 0)) \<and>
         (\<forall>rep. analyze_reversal df = Inr rep \<longrightarrow>
            es_uptrend_df df \<noteq> [] \<and> es_downtrend_df df \<noteq> [] \<and> es_range_df df \<noteq> [] \<and>
            td_pct_with_reversal (re_uptrend_day (rv_each_trend rep)) = pct_with_reversal_spec df 1 \<and>
            td_pct_with_reversal (re_downtrend_day (rv_each_trend rep)) =
              pct_with_reversal_spec df (- 1) \<and>
            td_pct_with_reversal (re_range_day (rv_each_trend rep)) = pct_with_reversal_spec df 0 \<and>
            (length (es_uptrend_df df) = 3 \<and> length (es_uptrend_then_reversal_df df) = 1 \<longrightarrow>
               round_py (td_pct_with_reversal (re_uptrend_day (rv_each_trend rep))) = 333 / 10 \<and>
               333 / 10 - 1 / 20 \<le> td_pct_with_reversal (re_uptrend_day (rv_each_trend rep)) \<and>
               td_pct_with_reversal (re_uptrend_day (rv_each_trend rep)) < 333 / 10 + 1 / 20))"
proof -
  have forms: "td_pct_with_reversal (re_uptrend_day (rv_each_trend rep)) = pct_with_reversal_spec df 1 \<and>
            td_pct_with_reversal (re_downtrend_day (rv_each_trend rep)) =
              pct_with_reversal_spec df (- 1) \<and>
            td_pct_with_reversal (re_range_day (rv_each_trend rep)) = pct_with_reversal_spec df 0"
    and classes: "es_uptrend_df df \<noteq> [] \<and> es_downtrend_df df \<noteq> [] \<and> es_range_df df \<noteq> []"
    and third: "length (es_uptrend_df df) = 3 \<and> length (es_uptrend_then_reversal_df df) = 1 \<longrightarrow>
      td_pct_with_reversal (re_uptrend_day (rv_each_trend rep)) = 100 * real 1 / real 3"
    if a: "analyze_reversal df = Inr rep" for rep
  proof -
    note u = trend_day_Inr [OF analyze_reversal_parts(1) [OF a]]
    note d = trend_day_Inr [OF analyze_reversal_parts(2) [OF a]]
    note r = trend_day_Inr [OF analyze_reversal_parts(3) [OF a]]
    show "es_uptrend_df df \<noteq> [] \<and> es_downtrend_df df \<noteq> [] \<and> es_range_df df \<noteq> []"
      using u d r by simp
    have f1: "td_pct_with_reversal (re_uptrend_day (rv_each_trend rep)) = pct_with_reversal_spec df 1"
      using u by (simp add: pct_with_reversal_spec_def es_uptrend_df_def then_reversal_class)
    have f2: "td_pct_with_reversal (re_downtrend_day (rv_each_trend rep)) =
        pct_with_reversal_spec df (- 1)"
      using d by (simp add: pct_with_reversal_spec_def es_downtrend_df_def then_reversal_class)
    have f3: "td_pct_with_reversal (re_range_day (rv_each_trend rep)) = pct_with_reversal_spec df 0"
      using r by (simp add: pct_with_reversal_spec_def es_range_df_def then_reversal_class)
    show "td_pct_with_reversal (re_uptrend_day (rv_each_trend rep)) = pct_with_reversal_spec df 1 \<and>
            td_pct_with_reversal (re_downtrend_day (rv_each_trend rep)) =
              pct_with_reversal_spec df (- 1) \<and>
            td_pct_with_reversal (re_range_day (rv_each_trend rep)) = pct_with_reversal_spec df 0"
      using f1 f2 f3 by blast
    show "length (es_uptrend_df df) = 3 \<and> length (es_uptrend_then_reversal_df df) = 1 \<longrightarrow>
      td_pct_with_reversal (re_uptrend_day (rv_each_trend rep)) = 100 * real 1 / real 3"
      using u unfolding es_uptrend_then_reversal_df_def by metis
  qed
  have p1: "(\<exists>s\<in>set df. col_trend s = Some 1 \<and> col_hour_trend_change s \<noteq> None) \<and>
          (\<exists>s\<in>set df. col_trend s = Some (- 1) \<and> col_hour_trend_change s \<noteq> None) \<and>
          (\<exists>s\<in>set df. col_trend s = Some 0 \<and> col_hour_trend_change s \<noteq> None) \<and>
          (\<exists>s\<in>set df. es_higher_pp s) \<and> (\<exists>s\<in>set df. es_lower_pp s)
            \<longrightarrow> (\<exists>rep. analyze_reversal df = Inr rep \<and>
            td_pct_with_reversal (re_uptrend_day (rv_each_trend rep)) = pct_with_reversal_spec df 1 \<and>
            td_pct_with_reversal (re_downtrend_day (rv_each_trend rep)) =
              pct_with_reversal_spec df (- 1) \<and>
            td_pct_with_reversal (re_range_day (rv_each_trend rep)) = pct_with_reversal_spec df 0)"
  proof
    assume "(\<exists>s\<in>set df. col_trend s = Some 1 \<and> col_hour_trend_change s \<noteq> None) \<and>
          (\<exists>s\<in>set df. col_trend s = Some (- 1) \<and> col_hour_trend_change s \<noteq> None) \<and>
          (\<exists>s\<in>set df. col_trend s = Some 0 \<and> col_hour_trend_change s \<noteq> None) \<and>
          (\<exists>s\<in>set df. es_higher_pp s) \<and> (\<exists>s\<in>set df. es_lower_pp s)"
    then obtain rep where rep: "analyze_reversal df = Inr rep"
      using analyze_reversal_returns [OF inv] by blast
    show "\<exists>rep. analyze_reversal df = Inr rep \<and>
            td_pct_with_reversal (re_uptrend_day (rv_each_trend rep)) = pct_with_reversal_spec df 1 \<and>
            td_pct_with_reversal (re_downtrend_day (rv_each_trend rep)) =
              pct_with_reversal_spec df (- 1) \<and>
            td_pct_with_reversal (re_range_day (rv_each_trend rep)) = pct_with_reversal_spec df 0"
      using rep forms [OF rep] by blast
  qed
  have p2: "\<forall>rep. analyze_reversal df = Inr rep \<longrightarrow>
            es_uptrend_df df \<noteq> [] \<and> es_downtrend_df df \<noteq> [] \<and> es_range_df df \<noteq> [] \<and>
            td_pct_with_reversal (re_uptrend_day (rv_each_trend rep)) = pct_with_reversal_spec df 1 \<and>
            td_pct_with_reversal (re_downtrend_day (rv_each_trend rep)) =
              pct_with_reversal_spec df (- 1) \<and>
            td_pct_with_reversal (re_range_day (rv_each_trend rep)) = pct_with_reversal_spec df 0 \<and>
            (length (es_uptrend_df df) = 3 \<and> length (es_uptrend_then_reversal_df df) = 1 \<longrightarrow>
               round_py (td_pct_with_reversal (re_uptrend_day (rv_each_trend rep))) = 333 / 10 \<and>
               333 / 10 - 1 / 20 \<le> td_pct_with_reversal (re_uptrend_day (rv_each_trend rep)) \<and>
               td_pct_with_reversal (re_uptrend_day (rv_each_trend rep)) < 333 / 10 + 1 / 20)"
  proof (intro allI impI)
    fix rep assume a: "analyze_reversal df = Inr rep"
    have t: "length (es_uptrend_df df) = 3 \<and> length (es_uptrend_then_reversal_df df) = 1 \<longrightarrow>
               round_py (td_pct_with_reversal (re_uptrend_day (rv_each_trend rep))) = 333 / 10 \<and>
               333 / 10 - 1 / 20 \<le> td_pct_with_reversal (re_uptrend_day (rv_each_trend rep)) \<and>
               td_pct_with_reversal (re_uptrend_day (rv_each_trend rep)) < 333 / 10 + 1 / 20"
    proof
      assume "length (es_uptrend_df df) = 3 \<and> length (es_uptrend_then_reversal_df df) = 1"
      then have e: "td_pct_with_reversal (re_uptrend_day (rv_each_trend rep)) = 100 * real 1 / real 3"
        using third [OF a] by blast
      show "round_py (td_pct_with_reversal (re_uptrend_day (rv_each_trend rep))) = 333 / 10 \<and>
               333 / 10 - 1 / 20 \<le> td_pct_with_reversal (re_uptrend_day (rv_each_trend rep)) \<and>
               td_pct_with_reversal (re_uptrend_day (rv_each_trend rep)) < 333 / 10 + 1 / 20"
        unfolding e using round_py_third third_to_one_decimal by blast
    qed
    show "es_uptrend_df df \<noteq> [] \<and> es_downtrend_df df \<noteq> [] \<and> es_range_df df \<noteq> [] \<and>
            td_pct_with_reversal (re_uptrend_day (rv_each_trend rep)) = pct_with_reversal_spec df 1 \<and>
            td_pct_with_reversal (re_downtrend_day (rv_each_trend rep)) =
              pct_with_reversal_spec df (- 1) \<and>
            td_pct_with_reversal (re_range_day (rv_each_trend rep)) = pct_with_reversal_spec df 0 \<and>
            (length (es_uptrend_df df) = 3 \<and> length (es_uptrend_then_reversal_df df) = 1 \<longrightarrow>
               round_py (td_pct_with_reversal (re_uptrend_day (rv_each_trend rep))) = 333 / 10 \<and>
               333 / 10 - 1 / 20 \<le> td_pct_with_reversal (re_uptrend_day (rv_each_trend rep)) \<and>
               td_pct_with_reversal (re_uptrend_day (rv_each_trend rep)) < 333 / 10 + 1 / 20)"
      using classes [OF a] forms [OF a] t by blast
  qed
  show ?thesis using p1 p2 by blast
qed

text \<open>The ten-session table satisfies the invariant and has a reversal in every class.\<close>

lemma journal_10_invariant:
  "\<forall>s\<in>set journal_10. (col_new_trend s \<noteq> None) = (col_hour_trend_change s \<noteq> None)"
  by code_simp

lemma journal_10_classes:
  "(\<exists>s\<in>set journal_10. col_trend s = Some 1 \<and> col_hour_trend_change s \<noteq> None) \<and>
   (\<exists>s\<in>set journal_10. col_trend s = Some (- 1) \<and> col_hour_trend_change s \<noteq> None) \<and>
   (\<exists>s\<in>set journal_10. col_trend s = Some 0 \<and> col_hour_trend_change s \<noteq> None) \<and>
   (\<exists>s\<in>set journal_10. es_higher_pp s) \<and> (\<exists>s\<in>set journal_10. es_lower_pp s)"
  by code_simp

lemma journal_10_uptrend:
  "length (es_uptrend_df journal_10) = 3 \<and> length (es_uptrend_then_reversal_df journal_10) = 1"
  by code_simp

theorem pct_with_reversal_per_class_witness:
  "\<exists>rep. analyze_reversal journal_10 = Inr rep \<and>
     td_pct_with_reversal (re_uptrend_day (rv_each_trend rep)) = pct_with_reversal_spec journal_10 1 \<and>
     round_py (td_pct_with_reversal (re_uptrend_day (rv_each_trend rep))) = 333 / 10"
proof -
  note t = pct_with_reversal_per_class [OF journal_10_invariant]
  obtain rep where rep: "analyze_reversal journal_10 = Inr rep"
    using t journal_10_classes by blast
  show ?thesis
    using t rep journal_10_uptrend by blast
qed

text \<open>
  The hypotheses of claim C8 alone do not make the statistic exist. The table of three
  uptrend sessions, one of them with a reversal, satisfies the invariant (the new trend
  and the reversal hour are filled in the same row), but there is no downtrend session: the analyzer divides by the number of downtrend days, raises
  \<^verbatim>\<open>ZeroDivisionError\<close> and reports no percentage.
\<close>

theorem pct_with_reversal_aborts:
  "map col_new_trend uptrend_only = [Some (- 1), None, None] \<and>
   map col_hour_trend_change uptrend_only = [Some (time_hm 10 0), None, None] \<and>
   length (es_uptrend_df uptrend_only) = 3 \<and>
   length (es_uptrend_then_reversal_df uptrend_only) = 1 \<and>
   class_pct uptrend_only = Inl ZeroDivisionError \<and>
   analyze_reversal uptrend_only = Inl ZeroDivisionError"
  by code_simp

text \<open>
  Claim C4 asks for the range-day reversal cohort as the divisor of the range-day
  "% reversal when ES<PP at 8:30am". The source divides by the size of the downtrend
  reversal cohort: in every report the value is the following.
\<close>

lemma range_day_lower_pp_formula:
  assumes "analyze_reversal df = Inr rep"
  shows "td_pct_reversal_es_lower_pp (re_range_day (rv_each_trend rep)) =
           100 * real (length (filter es_lower_pp (es_range_then_reversal_df df))) /
             real (length (es_downtrend_then_reversal_df df))"
  using trend_day_Inr [OF analyze_reversal_parts(3) [OF assms]]
  by (simp add: es_range_then_reversal_df_def)

text \<open>
  In the ten-session table the only range-day reversal opens below the pivot, so the
  share of claim C4 is 100; there are two downtrend reversals, and the analyzer
  reports 50.
\<close>

theorem range_day_lower_pp_divisor:
  "map_sum id (\<lambda>r. td_pct_reversal_es_lower_pp (re_range_day (rv_each_trend r)))
     (analyze_reversal journal_10) = Inr 50 \<and>
   length (filter es_lower_pp (es_range_then_reversal_df journal_10)) = 1 \<and>
   length (es_range_then_reversal_df journal_10) = 1 \<and>
   length (es_downtrend_then_reversal_df journal_10) = 2"
  by code_simp

section \<open>Empty cohorts\<close>

lemma trend_day_no_reversal:
  "then_reversal cls = [] \<Longrightarrow> trend_day cls den = Inl ZeroDivisionError"
  by (cases "cls = []"; cases "den = 0") (simp_all add: trend_day_def Let_def pct_def py_div_def)

lemma trend_day_mean_no_reversal:
  assumes "trend_day cls d = Inr t"
  shows "(td_avg_range_no_reversal t = None) = (filter (\<lambda>r. col_new_trend r = None) cls = [])"
proof -
  have "td_avg_range_no_reversal t =
      np_mean (map col_max_range (filter (\<lambda>r. col_new_trend r = None) cls))"
    using assms unfolding trend_day_def Let_def bind_e_Inr_iff pct_Inr_iff by auto
  then show ?thesis by (simp add: np_mean_def)
qed

text \<open>
  Claim C2, as the code has it. The source has no guard for an empty cohort.
  \<^verbatim>\<open>__calc_cpf\<close> (with a non-zero bin width) and \<^verbatim>\<open>__calc_cpf_time\<close> raise
  \<^verbatim>\<open>ZeroDivisionError\<close> exactly when the cohort is empty. When deep rebounds are
  recorded but none at a level, the deep-rebound block of that level raises at its CPF,
  so that neither its percentage nor its mean nor its CPF is reported. A percentage
  whose divisor is the size of an empty cohort raises too: the block of a trend class
  without a reversal raises \<^verbatim>\<open>ZeroDivisionError\<close>, whatever the divisor handed to
  it. Only a mean is reported as not
  applicable: in a class block that returns, the average range of the days without a
  new trend is NaN exactly when the class has no such day.
\<close>

theorem cpf_empty_cohort:
  "(bin_span \<noteq> 0 \<longrightarrow> (calc_cpf data bin_max bin_span = Inl ZeroDivisionError) = (data = [])) \<and>
   ((calc_cpf_time tdata = Inl ZeroDivisionError) = (tdata = [])) \<and>
   (pt_deep_rebound df \<noteq> [] \<and> pt_deep_rebound_at point df = [] \<longrightarrow>
      deep_rebound_level point df = Inl ZeroDivisionError) \<and>
   (then_reversal cls = [] \<longrightarrow> trend_day cls den = Inl ZeroDivisionError) \<and>
   (\<forall>t. trend_day cls' d = Inr t \<longrightarrow>
      (td_avg_range_no_reversal t = None) = (filter (\<lambda>r. col_new_trend r = None) cls' = []))"
proof (intro conjI impI allI)
  assume b: "bin_span \<noteq> 0"
  show "(calc_cpf data bin_max bin_span = Inl ZeroDivisionError) = (data = [])"
  proof (cases "data = []")
    case True
    then show ?thesis using calc_cpf_empty [OF b] by simp
  next
    case False
    obtain ps where "py_range bin_span bin_max bin_span = Inr ps"
      using py_range_Inr [OF b] by blast
    then show ?thesis using calc_cpf_Inr [OF False] False by simp
  qed
next
  show "(calc_cpf_time tdata = Inl ZeroDivisionError) = (tdata = [])"
  proof (cases "tdata = []")
    case True
    then show ?thesis using calc_cpf_time_empty by simp
  next
    case False
    then show ?thesis using calc_cpf_time_Inr [OF False] by simp
  qed
next
  assume "pt_deep_rebound df \<noteq> [] \<and> pt_deep_rebound_at point df = []"
  then show "deep_rebound_level point df = Inl ZeroDivisionError"
    using deep_rebound_level_empty by blast
next
  assume "then_reversal cls = []"
  then show "trend_day cls den = Inl ZeroDivisionError"
    by (rule trend_day_no_reversal)
next
  fix t assume "trend_day cls' d = Inr t"
  then show "(td_avg_range_no_reversal t = None) = (filter (\<lambda>r. col_new_trend r = None) cls' = [])"
    by (rule trend_day_mean_no_reversal)
qed

lemma demark_no_deep_resistance_cells:
  "pt_deep_rebound demark_no_deep_resistance \<noteq> [] \<and>
   pt_deep_rebound_at ''R'' demark_no_deep_resistance = []"
  by code_simp

lemma uptrend_no_reversal_cohort: "then_reversal uptrend_no_reversal = []"
  by code_simp

lemma uptrend_all_reversed_block:
  "map_sum id (\<lambda>t. ()) (trend_day uptrend_all_reversed 1) = Inr () \<and>
   filter (\<lambda>r. col_new_trend r = None) uptrend_all_reversed = []"
  by code_simp

text \<open>
  The empty cohort; the table without a deep rebound at the resistance; a class without
  a reversal; a class whose only session has a reversal, where the mean of the days
  without a new trend is NaN.
\<close>

theorem cpf_empty_cohort_witness:
  "calc_cpf [] 5 2 = Inl ZeroDivisionError \<and> calc_cpf_time [] = Inl ZeroDivisionError \<and>
   deep_rebound_level ''R'' demark_no_deep_resistance = Inl ZeroDivisionError \<and>
   trend_day uptrend_no_reversal 0 = Inl ZeroDivisionError \<and>
   (\<exists>t. trend_day uptrend_all_reversed 1 = Inr t \<and> td_avg_range_no_reversal t = None)"
proof -
  note c = cpf_empty_cohort [of 2 "[]" 5 "[]" demark_no_deep_resistance "''R''"
      uptrend_no_reversal 0 uptrend_all_reversed 1]
  obtain t where t: "trend_day uptrend_all_reversed 1 = Inr t"
    using uptrend_all_reversed_block by (cases "trend_day uptrend_all_reversed 1") auto
  have m: "td_avg_range_no_reversal t = None"
    using c t uptrend_all_reversed_block by blast
  have p: "trend_day uptrend_no_reversal 0 = Inl ZeroDivisionError"
    using c uptrend_no_reversal_cohort by metis
  show ?thesis
    using c demark_no_deep_resistance_cells t m p by simp
qed

text \<open>
  With deep rebounds at the pivot and the support only, the deep-rebound cohort of the
  resistance is empty: its block raises \<^verbatim>\<open>ZeroDivisionError\<close>, and so does the
  analyzer, instead of reporting a "not applicable" marker.
\<close>

theorem empty_cohort_raises:
  "pt_deep_rebound demark_no_deep_resistance = [5, 3] \<and>
   pt_deep_rebound_at ''R'' demark_no_deep_resistance = [] \<and>
   deep_rebound_level ''R'' demark_no_deep_resistance = Inl ZeroDivisionError \<and>
   analyze_pivot_points demark_no_deep_resistance = Inl ZeroDivisionError"
  by code_simp

section \<open>The range analyzer\<close>

text \<open>
  Claim C5 asks for the row labelled "ES<PP" to be the CPF over the sessions with code 0
  or 2, the bucket the reversal analyzer calls "lower". In \<^verbatim>\<open>__analyze_range\<close> the
  row is computed over the codes 1 and -1. For the range days of the ten-session table
  (ranges 8 and 6 with code 0, ranges 12 and 9 with code 1) the row labelled "ES<PP"
  is the CPF of 12 and 9, not that of 8 and 6.
\<close>

theorem range_es_lt_pp_bucket:
  "map_sum id (\<lambda>r. rs_ES_lt_PP (rg_range r)) (analyze_range journal_10) =
     Inr [(5, 0), (10, 50), (12, 100)] \<and>
   map_sum id cpf_table
     (calc_cpf (map col_max_range (filter es_lower_pp (es_range_df journal_10))) 12 5) =
     Inr [(5, 0), (10, 100), (12, 100)]"
  by code_simp

section \<open>The rounding helper\<close>

text \<open>
  Claim C9. For every non-negative number \<open>n\<close> the helper \<^verbatim>\<open>__round\<close> returns
  \<^verbatim>\<open>int(n * 10) / 10\<close>, the truncation of \<open>n\<close> at one decimal place: the result
  is the floor of \<open>10 n\<close> divided by ten, it never exceeds \<open>n\<close>, and it is less than a
  tenth below \<open>n\<close>. It does not round to the nearest tenth.
\<close>

theorem round_truncates:
  "0 \<le> n \<Longrightarrow>
     round_py n = real_of_int \<lfloor>n * 10\<rfloor> / 10 \<and> round_py n \<le> n \<and> n < round_py n + 1 / 10"
proof -
  assume n: "0 \<le> n"
  have eq: "round_py n = real_of_int \<lfloor>n * 10\<rfloor> / 10"
    using n by (simp add: round_py_def py_int_def FACTOR_ROUND_def)
  have a: "real_of_int \<lfloor>n * 10\<rfloor> \<le> n * 10" by linarith
  have b: "n * 10 < real_of_int \<lfloor>n * 10\<rfloor> + 1" by linarith
  have c: "real_of_int \<lfloor>n * 10\<rfloor> / 10 \<le> n" using a by linarith
  have d: "n < real_of_int \<lfloor>n * 10\<rfloor> / 10 + 1 / 10" using b by linarith
  show ?thesis unfolding eq using c d by blast
qed

text \<open>At 33.39 the helper gives 33.3, where rounding to the nearest tenth gives 33.4.\<close>

theorem round_truncates_witness:
  "(0::real) \<le> 3339 / 100 \<and> round_py (3339 / 100) = 333 / 10 \<and> round_py (3339 / 100) < 334 / 10"
  using round_truncates [of "3339 / 100"] by simp

end
